theory Spec2Isabelle
  imports Complex_Main
begin

section \<open>Python values and dictionaries\<close>

text \<open>
  The curators of \<^verbatim>\<open>nutrition.py\<close> build plain Python values (dicts, lists, strings,
  numbers, booleans, \<^verbatim>\<open>None\<close>) that are afterwards handed to \<^verbatim>\<open>json.dumps\<close>.
  A dict keeps its insertion order, so it is an association list. Floats are only ever
  carried from the source object to the output, never computed with; a rational stands
  for the carried number.
\<close>

datatype pyval =
    PNone
  | PBool bool
  | PInt int
  | PFloat rat
  | PStr string
  | PList "pyval list"
  | PDict "(string \<times> pyval) list"

type_synonym pydict = "(string \<times> pyval) list"

text \<open>Python truthiness, as tested by \<^verbatim>\<open>if x:\<close>.\<close>

fun truthy :: "pyval \<Rightarrow> bool" where
  "truthy PNone = False"
| "truthy (PBool b) = b"
| "truthy (PInt n) = (n \<noteq> 0)"
| "truthy (PFloat x) = (x \<noteq> 0)"
| "truthy (PStr s) = (s \<noteq> [])"
| "truthy (PList xs) = (xs \<noteq> [])"
| "truthy (PDict d) = (d \<noteq> [])"

text \<open>\<^verbatim>\<open>d[k] = v\<close>: an existing key keeps its position, a new key goes last.\<close>

fun dict_set :: "pydict \<Rightarrow> string \<Rightarrow> pyval \<Rightarrow> pydict" where
  "dict_set [] k v = [(k, v)]"
| "dict_set ((k', v') # d) k v =
     (if k' = k then (k, v) # d else (k', v') # dict_set d k v)"

text \<open>\<^verbatim>\<open>d.update(e)\<close>: the items of \<open>e\<close> are stored in their order.\<close>

fun dict_update :: "pydict \<Rightarrow> pydict \<Rightarrow> pydict" where
  "dict_update d [] = d"
| "dict_update d ((k, v) # e) = dict_update (dict_set d k v) e"

text \<open>\<^verbatim>\<open>{k: v for k, v in d.items() if v is not None}\<close>\<close>

definition drop_none :: "pydict \<Rightarrow> pydict" where
  "drop_none d = filter (\<lambda>(k, v). v \<noteq> PNone) d"

text \<open>\<^verbatim>\<open>list(d)\<close>, the keys in insertion order, and \<^verbatim>\<open>d.get(k)\<close>.\<close>

definition keys :: "pydict \<Rightarrow> string list" where
  "keys d = map fst d"

definition dict_get :: "pydict \<Rightarrow> string \<Rightarrow> pyval option" where
  "dict_get d k = map_of d k"

section \<open>The response objects of the garth nutrition client\<close>

text \<open>
  The classes live in the external \<^verbatim>\<open>garth.nutrition\<close> package; only the attributes
  that \<^verbatim>\<open>nutrition.py\<close> reads are modelled. A scalar attribute holds any Python
  value (\<open>PNone\<close> when it is \<^verbatim>\<open>None\<close>); an attribute that holds another response
  object is an option of that object's record, \<open>None\<close> for \<^verbatim>\<open>None\<close>. Such an object
  defines neither \<^verbatim>\<open>__bool__\<close> nor \<^verbatim>\<open>__len__\<close>, so it is truthy whenever it is
  not \<^verbatim>\<open>None\<close>.
\<close>

record Meal =
  meal_id :: int
  meal_name :: string

record NutritionContent =
  nc_serving_id :: pyval
  nc_serving_unit :: pyval
  nc_number_of_units :: pyval
  nc_calories :: pyval
  nc_protein :: pyval
  nc_fat :: pyval
  nc_carbs :: pyval
  nc_fiber :: pyval
  nc_sugar :: pyval

record MacroGoals =
  mg_calories :: pyval
  mg_protein :: pyval
  mg_fat :: pyval
  mg_carbs :: pyval

record FoodMetaData =
  fm_food_id :: pyval
  fm_food_name :: pyval
  fm_brand_name :: pyval
  fm_source :: pyval

record SearchResult =
  sr_food_meta_data :: "FoodMetaData option"
  sr_nutrition_contents :: "NutritionContent list option"
  sr_is_favorite :: pyval

record LoggedFood =
  lf_log_id :: pyval
  lf_food_meta_data :: "FoodMetaData option"
  lf_serving_qty :: pyval
  lf_selected_nutrition_content :: "NutritionContent option"

record MealDetail =
  md_meal :: Meal
  md_meal_nutrition_content :: "NutritionContent option"
  md_logged_foods :: "LoggedFood list option"

record DailyNutritionLog =
  meal_date :: pyval
  daily_nutrition_goals :: "MacroGoals option"
  daily_nutrition_content :: "NutritionContent option"
  meal_details :: "MealDetail list"

record NutritionSettings =
  ns_calorie_goal :: pyval
  ns_weight_change_type :: pyval
  ns_auto_calorie_adjustment :: pyval
  ns_region_code :: pyval
  ns_language_code :: pyval
  ns_starting_weight :: pyval
  ns_target_weight_goal :: pyval
  ns_target_date :: pyval
  ns_macro_goals :: "MacroGoals option"

record SearchResults =
  srs_results :: "SearchResult list"
  srs_more_data_available :: pyval

record RecentFoods =
  rf_frequent_foods :: "SearchResult list"
  rf_recent_foods :: "SearchResult list"

record FavoriteFoodList =
  ffl_items :: "SearchResult list"
  ffl_has_more :: pyval

record CustomFoodList =
  cfl_items :: "SearchResult list"
  cfl_more_data_available :: pyval

record CustomMealList =
  cml_items :: "SearchResult list"
  cml_has_more :: pyval

record CustomMealDetail =
  cmd_custom_meal_id :: pyval
  cmd_name :: pyval
  cmd_foods :: "pyval list"
  cmd_content_summary :: "NutritionContent option"

section \<open>Response curators\<close>

text \<open>
  The functions \<^verbatim>\<open>_curate_nutrition_content\<close>, \<^verbatim>\<open>_curate_food_meta\<close>,
  \<^verbatim>\<open>_curate_search_result\<close>, \<^verbatim>\<open>_curate_logged_food\<close> and
  \<^verbatim>\<open>_curate_daily_log\<close>, under their names without the leading underscore. Each
  builds the full dict first and prunes the \<^verbatim>\<open>None\<close> values afterwards, as the source
  does.
\<close>

definition curate_nutrition_content :: "NutritionContent option \<Rightarrow> pydict" where
  "curate_nutrition_content nc_opt =
     (case nc_opt of
        None \<Rightarrow> []
      | Some nc \<Rightarrow>
          drop_none
            [(''serving_id'', nc_serving_id nc),
             (''serving_unit'', nc_serving_unit nc),
             (''number_of_units'', nc_number_of_units nc),
             (''calories'', nc_calories nc),
             (''protein'', nc_protein nc),
             (''fat'', nc_fat nc),
             (''carbs'', nc_carbs nc),
             (''fiber'', nc_fiber nc),
             (''sugar'', nc_sugar nc)])"

definition curate_food_meta :: "FoodMetaData option \<Rightarrow> pydict" where
  "curate_food_meta fm_opt =
     (case fm_opt of
        None \<Rightarrow> []
      | Some fm \<Rightarrow>
          drop_none
            [(''food_id'', fm_food_id fm),
             (''food_name'', fm_food_name fm),
             (''brand_name'', fm_brand_name fm),
             (''source'', fm_source fm)])"

definition curate_search_result :: "SearchResult \<Rightarrow> pydict" where
  "curate_search_result sr =
     (let result = curate_food_meta (sr_food_meta_data sr);
          result = (case sr_nutrition_contents sr of
                      None \<Rightarrow> result
                    | Some ncs \<Rightarrow>
                        if ncs \<noteq> []
                        then dict_set result ''servings''
                               (PList (map (\<lambda>nc. PDict (curate_nutrition_content (Some nc))) ncs))
                        else result);
          result = (if sr_is_favorite sr \<noteq> PNone
                    then dict_set result ''is_favorite'' (sr_is_favorite sr)
                    else result)
      in result)"

definition curate_logged_food :: "LoggedFood \<Rightarrow> pydict" where
  "curate_logged_food lf =
     (let curated = [];
          curated = (if truthy (lf_log_id lf)
                     then dict_set curated ''log_id'' (lf_log_id lf)
                     else curated);
          curated = dict_update curated (curate_food_meta (lf_food_meta_data lf));
          curated = (if lf_serving_qty lf \<noteq> PNone
                     then dict_set curated ''serving_qty'' (lf_serving_qty lf)
                     else curated);
          curated = (case lf_selected_nutrition_content lf of
                       None \<Rightarrow> curated
                     | Some nc \<Rightarrow>
                         dict_set curated ''nutrition''
                           (PDict (curate_nutrition_content (Some nc))))
      in curated)"

text \<open>The four-field selection shared by the daily goals and the daily totals.\<close>

definition goals_of :: "MacroGoals option \<Rightarrow> pydict" where
  "goals_of g_opt =
     (case g_opt of
        None \<Rightarrow> []
      | Some g \<Rightarrow>
          drop_none
            [(''calories'', mg_calories g),
             (''protein'', mg_protein g),
             (''fat'', mg_fat g),
             (''carbs'', mg_carbs g)])"

definition totals_of :: "NutritionContent option \<Rightarrow> pydict" where
  "totals_of t_opt =
     (case t_opt of
        None \<Rightarrow> []
      | Some t \<Rightarrow>
          drop_none
            [(''calories'', nc_calories t),
             (''protein'', nc_protein t),
             (''fat'', nc_fat t),
             (''carbs'', nc_carbs t)])"

text \<open>
  The body of the loop \<^verbatim>\<open>for md in log.meal_details\<close> of \<^verbatim>\<open>_curate_daily_log\<close>:
  the \<^verbatim>\<open>meal_data\<close> appended for one meal detail.
\<close>

definition curate_meal_detail :: "MealDetail \<Rightarrow> pydict" where
  "curate_meal_detail md =
     (let meal_data = [(''meal_name'', PStr (meal_name (md_meal md))),
                       (''meal_id'', PInt (meal_id (md_meal md)))];
          meal_data = (case md_meal_nutrition_content md of
                         None \<Rightarrow> meal_data
                       | Some nc \<Rightarrow>
                           dict_set meal_data ''totals''
                             (PDict (curate_nutrition_content (Some nc))));
          meal_data = (case md_logged_foods md of
                         None \<Rightarrow> meal_data
                       | Some fs \<Rightarrow>
                           if fs \<noteq> []
                           then dict_set meal_data ''foods''
                                  (PList (map (\<lambda>f. PDict (curate_logged_food f)) fs))
                           else meal_data)
      in meal_data)"

definition curate_daily_log :: "DailyNutritionLog \<Rightarrow> pydict" where
  "curate_daily_log dlog =
     (let goals = goals_of (daily_nutrition_goals dlog);
          totals = totals_of (daily_nutrition_content dlog);
          meals = map (\<lambda>md. PDict (curate_meal_detail md)) (meal_details dlog)
      in drop_none
           [(''date'', meal_date dlog),
            (''daily_goals'', PDict goals),
            (''daily_totals'', PDict totals),
            (''meals'', PList meals)])"

section \<open>Python strings\<close>

text \<open>
  Meal names, identifiers and messages are Python \<^verbatim>\<open>str\<close> values. The model holds
  a \<^verbatim>\<open>str\<close> as the list of the bytes of its UTF-8 encoding, so ASCII text is the
  list of its characters. Equality, emptiness, concatenation, splitting at an ASCII
  separator and substring search on the encodings are those on the strings themselves.

  What depends on the Unicode character database, \<^verbatim>\<open>str.upper\<close>,
  \<^verbatim>\<open>str.strip\<close> and \<^verbatim>\<open>repr\<close> of a string, belongs to the interpreter and not
  to this repository: the three are parameters of the resolver and of every handler that
  calls them, and every theorem about these holds for whatever they compute.
\<close>

record builtins =
  str_upper :: "string \<Rightarrow> string"
  str_strip :: "string \<Rightarrow> string"
  str_repr :: "string \<Rightarrow> string"

text \<open>\<^verbatim>\<open>s.split(sep)\<close> for a one-character separator; the result is never empty.\<close>

fun py_split :: "char \<Rightarrow> string \<Rightarrow> string list" where
  "py_split sep [] = [[]]"
| "py_split sep (c # cs) =
     (if c = sep then [] # py_split sep cs
      else (case py_split sep cs of
              p # ps \<Rightarrow> (c # p) # ps
            | [] \<Rightarrow> [[c]]))"

fun join :: "string \<Rightarrow> string list \<Rightarrow> string" where
  "join sep [] = []"
| "join sep [x] = x"
| "join sep (x # y # ys) = x @ sep @ join sep (y # ys)"

text \<open>
  \<^verbatim>\<open>repr\<close> of a list of strings, as an f-string interpolates it: the
  \<^verbatim>\<open>repr\<close> of each element, separated by a comma and a space, in brackets.
\<close>

definition py_repr_list :: "builtins \<Rightarrow> string list \<Rightarrow> string" where
  "py_repr_list b xs = ''['' @ join '', '' (map (str_repr b) xs) @ '']''"

function str_nat :: "nat \<Rightarrow> string" where
  "str_nat n = (if n < 10 then [char_of (48 + n)]
                else str_nat (n div 10) @ [char_of (48 + n mod 10)])"
  by pat_completeness auto
termination
  by (relation "measure id") auto

definition str_int :: "int \<Rightarrow> string" where
  "str_int i = (if i < 0 then ''-'' @ str_nat (nat (- i)) else str_nat (nat i))"

text \<open>An identifier argument typed \<^verbatim>\<open>str | int\<close> and its \<^verbatim>\<open>str(...)\<close>.\<close>

datatype str_or_int = IdStr string | IdInt int

fun py_str :: "str_or_int \<Rightarrow> string" where
  "py_str (IdStr s) = s"
| "py_str (IdInt i) = str_int i"

text \<open>\<^verbatim>\<open>needle in haystack\<close> on strings.\<close>

fun py_in :: "string \<Rightarrow> string \<Rightarrow> bool" where
  "py_in needle [] = (needle = [])"
| "py_in needle (c # cs) = (take (length needle) (c # cs) = needle \<or> py_in needle cs)"

section \<open>Exceptions, the collaborator and the call trace\<close>

text \<open>
  An exception is an instance of a subclass of \<^verbatim>\<open>Exception\<close>, with the text that
  \<^verbatim>\<open>str(e)\<close> gives. The handlers tell \<^verbatim>\<open>json.JSONDecodeError\<close> from the rest;
  \<open>ValueError\<close> is what the meal resolver raises; \<open>Exception\<close> is any other class.
\<close>

datatype exn = JSONDecodeError string | ValueError string | Exception string

fun str_exn :: "exn \<Rightarrow> string" where
  "str_exn (JSONDecodeError m) = m"
| "str_exn (ValueError m) = m"
| "str_exn (Exception m) = m"

text \<open>
  The operations of the garth client that the handlers call, each returning its object
  or raising; \<^verbatim>\<open>json.loads\<close> of the standard library is listed with them. They are
  parameters of every handler.
\<close>

record garth =
  MealDefinitions_get :: "string option \<Rightarrow> exn + Meal list"
  DailyNutritionLog_get :: "string \<Rightarrow> exn + DailyNutritionLog"
  NutritionSettings_get :: "string option \<Rightarrow> exn + NutritionSettings"
  FoodSearch_search :: "string \<Rightarrow> int \<Rightarrow> int \<Rightarrow> exn + SearchResults"
  FoodSearch_recent :: "int \<Rightarrow> string option \<Rightarrow> exn + RecentFoods"
  FavoriteFoods_list :: "string \<Rightarrow> int \<Rightarrow> int \<Rightarrow> exn + FavoriteFoodList"
  CustomFood_list :: "string \<Rightarrow> int \<Rightarrow> int \<Rightarrow> exn + CustomFoodList"
  FoodLog_add ::
    "string \<Rightarrow> int \<Rightarrow> string \<Rightarrow> string \<Rightarrow> string \<Rightarrow> rat \<Rightarrow> exn + DailyNutritionLog"
  QuickAdd_add ::
    "string \<Rightarrow> int \<Rightarrow> string \<Rightarrow> rat \<Rightarrow> rat \<Rightarrow> rat \<Rightarrow> rat \<Rightarrow> exn + DailyNutritionLog"
  FoodLog_update ::
    "string \<Rightarrow> string \<Rightarrow> int \<Rightarrow> string \<Rightarrow> string \<Rightarrow> string \<Rightarrow> rat
      \<Rightarrow> exn + DailyNutritionLog"
  FoodLog_remove :: "string \<Rightarrow> string list \<Rightarrow> exn + unit"
  FavoriteFoods_add :: "string \<Rightarrow> string \<Rightarrow> string \<Rightarrow> rat \<Rightarrow> exn + unit"
  FavoriteFoods_remove :: "string \<Rightarrow> exn + unit"
  CustomFood_create ::
    "string \<Rightarrow> string \<Rightarrow> rat \<Rightarrow> rat \<Rightarrow> rat option \<Rightarrow> rat option \<Rightarrow> rat option
      \<Rightarrow> rat option \<Rightarrow> rat option \<Rightarrow> exn + SearchResult"
  CustomFood_delete :: "string \<Rightarrow> exn + unit"
  CustomMeal_list :: "string \<Rightarrow> int \<Rightarrow> int \<Rightarrow> exn + CustomMealList"
  CustomMeal_create :: "string \<Rightarrow> pyval list \<Rightarrow> exn + CustomMealDetail"
  json_loads :: "string \<Rightarrow> exn + pyval"

text \<open>One entry of the trace for every call a handler makes, with its arguments.\<close>

datatype call =
    Call_MealDefinitions_get "string option"
  | Call_DailyNutritionLog_get string
  | Call_NutritionSettings_get "string option"
  | Call_FoodSearch_search string int int
  | Call_FoodSearch_recent int "string option"
  | Call_FavoriteFoods_list string int int
  | Call_CustomFood_list string int int
  | Call_FoodLog_add string int string string string rat
  | Call_QuickAdd_add string int string rat rat rat rat
  | Call_FoodLog_update string string int string string string rat
  | Call_FoodLog_remove string "string list"
  | Call_FavoriteFoods_add string string string rat
  | Call_FavoriteFoods_remove string
  | Call_CustomFood_create string string rat rat "rat option" "rat option" "rat option"
      "rat option" "rat option"
  | Call_CustomFood_delete string
  | Call_CustomMeal_list string int int
  | Call_CustomMeal_create string "pyval list"
  | Call_json_loads string

text \<open>
  What a handler returns: \<open>Doc d\<close> is the text \<^verbatim>\<open>json.dumps(d, indent=2)\<close>,
  \<open>Msg s\<close> is the string \<open>s\<close> itself.
\<close>

datatype reply = Doc pydict | Msg string

record outcome =
  text_of :: reply
  calls :: "call list"

section \<open>Meal resolver\<close>

text \<open>
  \<^verbatim>\<open>_resolve_meal_id\<close>: it fetches the meal definitions of the day, then scans them.
  \<open>scan_meals\<close> is its \<^verbatim>\<open>for m in meals\<close> loop, \<open>unknown_meal\<close> the message
  of the \<^verbatim>\<open>ValueError\<close> it raises after the loop, and \<open>resolve_in\<close> all of it that
  follows the fetch.
\<close>

fun scan_meals :: "builtins \<Rightarrow> Meal list \<Rightarrow> string \<Rightarrow> int option" where
  "scan_meals b [] upper = None"
| "scan_meals b (m # ms) upper =
     (if str_upper b (meal_name m) = upper then Some (meal_id m) else scan_meals b ms upper)"

definition unknown_meal :: "builtins \<Rightarrow> string \<Rightarrow> Meal list \<Rightarrow> string" where
  "unknown_meal b meal meals =
     ''Unknown meal '' @ [CHR 0x27] @ meal @ [CHR 0x27] @ ''. Available: ''
       @ py_repr_list b (map meal_name meals)"

definition resolve_in :: "builtins \<Rightarrow> Meal list \<Rightarrow> string \<Rightarrow> exn + int" where
  "resolve_in b meals meal =
     (let upper = str_upper b (str_strip b meal)
      in case scan_meals b meals upper of
           Some i \<Rightarrow> Inr i
         | None \<Rightarrow> Inl (ValueError (unknown_meal b meal meals)))"

definition resolve_meal_id ::
  "builtins \<Rightarrow> garth \<Rightarrow> string \<Rightarrow> string option \<Rightarrow> exn + int" where
  "resolve_meal_id b g meal day =
     (case MealDefinitions_get g day of
        Inl e \<Rightarrow> Inl e
      | Inr meals \<Rightarrow> resolve_in b meals meal)"

section \<open>Tool handlers\<close>

text \<open>
  Every handler is one \<^verbatim>\<open>try\<close> block; its \<^verbatim>\<open>except Exception as e\<close> clause
  turns the exception into the handler's own message. A handler takes the client \<open>g\<close>
  and its arguments, after the interpreter's string operations \<open>b\<close> when it calls one,
  and returns its text together with the calls it made, in order.
\<close>

subsection \<open>Read tools\<close>

definition get_nutrition_log :: "garth \<Rightarrow> string \<Rightarrow> outcome" where
  "get_nutrition_log g date =
     (case DailyNutritionLog_get g date of
        Inl e \<Rightarrow>
          \<lparr>text_of = Msg (''Error getting nutrition log: '' @ str_exn e),
           calls = [Call_DailyNutritionLog_get date]\<rparr>
      | Inr dlog \<Rightarrow>
          \<lparr>text_of = Doc (curate_daily_log dlog),
           calls = [Call_DailyNutritionLog_get date]\<rparr>)"

definition get_nutrition_summary :: "garth \<Rightarrow> string \<Rightarrow> outcome" where
  "get_nutrition_summary g date =
     (case DailyNutritionLog_get g date of
        Inl e \<Rightarrow>
          \<lparr>text_of = Msg (''Error getting nutrition summary: '' @ str_exn e),
           calls = [Call_DailyNutritionLog_get date]\<rparr>
      | Inr dlog \<Rightarrow>
          (let goals = goals_of (daily_nutrition_goals dlog);
               totals = totals_of (daily_nutrition_content dlog);
               curated = [(''date'', meal_date dlog),
                          (''totals'', PDict totals),
                          (''goals'', PDict goals)]
           in \<lparr>text_of = Doc curated, calls = [Call_DailyNutritionLog_get date]\<rparr>))"

text \<open>The literal stored under \<^verbatim>\<open>macro_goals\<close>; its own values are not pruned.\<close>

definition macro_goals_dict :: "MacroGoals \<Rightarrow> pydict" where
  "macro_goals_dict mg =
     [(''calories'', mg_calories mg),
      (''protein'', mg_protein mg),
      (''fat'', mg_fat mg),
      (''carbs'', mg_carbs mg)]"

definition get_nutrition_settings :: "garth \<Rightarrow> string option \<Rightarrow> outcome" where
  "get_nutrition_settings g date =
     (case NutritionSettings_get g date of
        Inl e \<Rightarrow>
          \<lparr>text_of = Msg (''Error getting nutrition settings: '' @ str_exn e),
           calls = [Call_NutritionSettings_get date]\<rparr>
      | Inr s \<Rightarrow>
          (let curated = [(''calorie_goal'', ns_calorie_goal s),
                          (''weight_change_type'', ns_weight_change_type s),
                          (''auto_calorie_adjustment'', ns_auto_calorie_adjustment s),
                          (''region_code'', ns_region_code s),
                          (''language_code'', ns_language_code s),
                          (''starting_weight_grams'', ns_starting_weight s),
                          (''target_weight_goal_grams'', ns_target_weight_goal s),
                          (''target_date'', ns_target_date s)];
               curated = (case ns_macro_goals s of
                            None \<Rightarrow> curated
                          | Some mg \<Rightarrow>
                              dict_set curated ''macro_goals'' (PDict (macro_goals_dict mg)));
               curated = drop_none curated
           in \<lparr>text_of = Doc curated, calls = [Call_NutritionSettings_get date]\<rparr>))"

text \<open>\<^verbatim>\<open>[_curate_search_result(r) for r in rs]\<close>\<close>

definition curate_all :: "SearchResult list \<Rightarrow> pyval" where
  "curate_all rs = PList (map (\<lambda>r. PDict (curate_search_result r)) rs)"

definition search_foods :: "garth \<Rightarrow> string \<Rightarrow> int \<Rightarrow> int \<Rightarrow> outcome" where
  "search_foods g query start limit =
     (case FoodSearch_search g query start limit of
        Inl e \<Rightarrow>
          \<lparr>text_of = Msg (''Error searching foods: '' @ str_exn e),
           calls = [Call_FoodSearch_search query start limit]\<rparr>
      | Inr results \<Rightarrow>
          \<lparr>text_of = Doc [(''query'', PStr query),
                          (''results'', curate_all (srs_results results)),
                          (''has_more'', srs_more_data_available results)],
           calls = [Call_FoodSearch_search query start limit]\<rparr>)"

definition get_recent_foods ::
  "builtins \<Rightarrow> garth \<Rightarrow> string \<Rightarrow> string option \<Rightarrow> outcome" where
  "get_recent_foods b g meal date =
     (case resolve_meal_id b g meal date of
        Inl e \<Rightarrow>
          \<lparr>text_of = Msg (''Error getting recent foods: '' @ str_exn e),
           calls = [Call_MealDefinitions_get date]\<rparr>
      | Inr mid \<Rightarrow>
          (case FoodSearch_recent g mid date of
             Inl e \<Rightarrow>
               \<lparr>text_of = Msg (''Error getting recent foods: '' @ str_exn e),
                calls = [Call_MealDefinitions_get date, Call_FoodSearch_recent mid date]\<rparr>
           | Inr recent \<Rightarrow>
               \<lparr>text_of = Doc [(''meal'', PStr (str_upper b meal)),
                               (''frequent_foods'', curate_all (rf_frequent_foods recent)),
                               (''recent_foods'', curate_all (rf_recent_foods recent))],
                calls = [Call_MealDefinitions_get date, Call_FoodSearch_recent mid date]\<rparr>))"

definition list_favorite_foods :: "garth \<Rightarrow> string \<Rightarrow> int \<Rightarrow> int \<Rightarrow> outcome" where
  "list_favorite_foods g query start limit =
     (case FavoriteFoods_list g query start limit of
        Inl e \<Rightarrow>
          \<lparr>text_of = Msg (''Error listing favorites: '' @ str_exn e),
           calls = [Call_FavoriteFoods_list query start limit]\<rparr>
      | Inr favs \<Rightarrow>
          \<lparr>text_of = Doc [(''favorites'', curate_all (ffl_items favs)),
                          (''has_more'', ffl_has_more favs)],
           calls = [Call_FavoriteFoods_list query start limit]\<rparr>)"

definition list_custom_foods :: "garth \<Rightarrow> string \<Rightarrow> int \<Rightarrow> int \<Rightarrow> outcome" where
  "list_custom_foods g query start limit =
     (case CustomFood_list g query start limit of
        Inl e \<Rightarrow>
          \<lparr>text_of = Msg (''Error listing custom foods: '' @ str_exn e),
           calls = [Call_CustomFood_list query start limit]\<rparr>
      | Inr foods \<Rightarrow>
          \<lparr>text_of = Doc [(''custom_foods'', curate_all (cfl_items foods)),
                          (''has_more'', cfl_more_data_available foods)],
           calls = [Call_CustomFood_list query start limit]\<rparr>)"

subsection \<open>Write tools\<close>

definition log_food ::
  "builtins \<Rightarrow> garth \<Rightarrow> string \<Rightarrow> string \<Rightarrow> str_or_int \<Rightarrow> str_or_int \<Rightarrow> string \<Rightarrow> rat \<Rightarrow> outcome" where
  "log_food b g date meal food_id serving_id source serving_qty =
     (let food_id = py_str food_id; serving_id = py_str serving_id
      in case resolve_meal_id b g meal (Some date) of
           Inl e \<Rightarrow>
             \<lparr>text_of = Msg (''Error logging food: '' @ str_exn e),
              calls = [Call_MealDefinitions_get (Some date)]\<rparr>
         | Inr mid \<Rightarrow>
             (case FoodLog_add g date mid food_id serving_id source serving_qty of
                Inl e \<Rightarrow>
                  \<lparr>text_of = Msg (''Error logging food: '' @ str_exn e),
                   calls = [Call_MealDefinitions_get (Some date),
                            Call_FoodLog_add date mid food_id serving_id source serving_qty]\<rparr>
              | Inr dlog \<Rightarrow>
                  \<lparr>text_of = Doc (curate_daily_log dlog),
                   calls = [Call_MealDefinitions_get (Some date),
                            Call_FoodLog_add date mid food_id serving_id source serving_qty]\<rparr>))"

definition quick_add_nutrition ::
  "builtins \<Rightarrow> garth \<Rightarrow> string \<Rightarrow> string \<Rightarrow> string \<Rightarrow> rat \<Rightarrow> rat \<Rightarrow> rat \<Rightarrow> rat \<Rightarrow> outcome" where
  "quick_add_nutrition b g date meal name calories protein fat carbs =
     (case resolve_meal_id b g meal (Some date) of
        Inl e \<Rightarrow>
          \<lparr>text_of = Msg (''Error quick-adding nutrition: '' @ str_exn e),
           calls = [Call_MealDefinitions_get (Some date)]\<rparr>
      | Inr mid \<Rightarrow>
          (case QuickAdd_add g date mid name calories protein fat carbs of
             Inl e \<Rightarrow>
               \<lparr>text_of = Msg (''Error quick-adding nutrition: '' @ str_exn e),
                calls = [Call_MealDefinitions_get (Some date),
                         Call_QuickAdd_add date mid name calories protein fat carbs]\<rparr>
           | Inr dlog \<Rightarrow>
               \<lparr>text_of = Doc (curate_daily_log dlog),
                calls = [Call_MealDefinitions_get (Some date),
                         Call_QuickAdd_add date mid name calories protein fat carbs]\<rparr>))"

definition update_food_log ::
  "builtins \<Rightarrow> garth \<Rightarrow> string \<Rightarrow> str_or_int \<Rightarrow> string \<Rightarrow> str_or_int \<Rightarrow> str_or_int \<Rightarrow> string \<Rightarrow> rat
    \<Rightarrow> outcome" where
  "update_food_log b g date log_id meal food_id serving_id source serving_qty =
     (let log_id = py_str log_id; food_id = py_str food_id; serving_id = py_str serving_id
      in case resolve_meal_id b g meal (Some date) of
           Inl e \<Rightarrow>
             \<lparr>text_of = Msg (''Error updating food log: '' @ str_exn e),
              calls = [Call_MealDefinitions_get (Some date)]\<rparr>
         | Inr mid \<Rightarrow>
             (case FoodLog_update g date log_id mid food_id serving_id source serving_qty of
                Inl e \<Rightarrow>
                  \<lparr>text_of = Msg (''Error updating food log: '' @ str_exn e),
                   calls = [Call_MealDefinitions_get (Some date),
                            Call_FoodLog_update date log_id mid food_id serving_id source
                              serving_qty]\<rparr>
              | Inr dlog \<Rightarrow>
                  \<lparr>text_of = Doc (curate_daily_log dlog),
                   calls = [Call_MealDefinitions_get (Some date),
                            Call_FoodLog_update date log_id mid food_id serving_id source
                              serving_qty]\<rparr>))"

text \<open>
  \<^verbatim>\<open>[lid.strip() for lid in log_ids.split(",") if lid.strip()]\<close>
\<close>

definition parse_log_ids :: "builtins \<Rightarrow> string \<Rightarrow> string list" where
  "parse_log_ids b log_ids =
     map (str_strip b)
       (filter (\<lambda>lid. str_strip b lid \<noteq> []) (py_split CHR '','' log_ids))"

definition remove_food_log :: "builtins \<Rightarrow> garth \<Rightarrow> string \<Rightarrow> string \<Rightarrow> outcome" where
  "remove_food_log b g date log_ids =
     (let ids = parse_log_ids b log_ids
      in if ids = [] then \<lparr>text_of = Msg ''Error: no log_ids provided'', calls = []\<rparr>
         else (case FoodLog_remove g date ids of
                 Inl e \<Rightarrow>
                   \<lparr>text_of = Msg (''Error removing food log entries: '' @ str_exn e),
                    calls = [Call_FoodLog_remove date ids]\<rparr>
               | Inr u \<Rightarrow>
                   \<lparr>text_of = Doc [(''status'', PStr ''success''),
                                   (''date'', PStr date),
                                   (''removed_count'', PInt (int (length ids)))],
                    calls = [Call_FoodLog_remove date ids]\<rparr>))"

definition add_favorite_food ::
  "garth \<Rightarrow> str_or_int \<Rightarrow> str_or_int \<Rightarrow> string \<Rightarrow> rat \<Rightarrow> outcome" where
  "add_favorite_food g food_id serving_id source serving_qty =
     (let food_id = py_str food_id; serving_id = py_str serving_id
      in case FavoriteFoods_add g food_id serving_id source serving_qty of
           Inl e \<Rightarrow>
             \<lparr>text_of = Msg (''Error adding favorite: '' @ str_exn e),
              calls = [Call_FavoriteFoods_add food_id serving_id source serving_qty]\<rparr>
         | Inr u \<Rightarrow>
             \<lparr>text_of = Doc [(''status'', PStr ''success''), (''food_id'', PStr food_id)],
              calls = [Call_FavoriteFoods_add food_id serving_id source serving_qty]\<rparr>)"

definition remove_favorite_food :: "garth \<Rightarrow> str_or_int \<Rightarrow> outcome" where
  "remove_favorite_food g food_id =
     (let food_id = py_str food_id
      in case FavoriteFoods_remove g food_id of
           Inl e \<Rightarrow>
             \<lparr>text_of = Msg (''Error removing favorite: '' @ str_exn e),
              calls = [Call_FavoriteFoods_remove food_id]\<rparr>
         | Inr u \<Rightarrow>
             \<lparr>text_of = Doc [(''status'', PStr ''success''), (''food_id'', PStr food_id)],
              calls = [Call_FavoriteFoods_remove food_id]\<rparr>)"

definition create_custom_food ::
  "garth \<Rightarrow> string \<Rightarrow> string \<Rightarrow> rat \<Rightarrow> rat \<Rightarrow> rat option \<Rightarrow> rat option \<Rightarrow> rat option
    \<Rightarrow> rat option \<Rightarrow> rat option \<Rightarrow> outcome" where
  "create_custom_food g food_name serving_unit number_of_units calories protein fat carbs
      fiber sugar =
     (case CustomFood_create g food_name serving_unit number_of_units calories protein fat
             carbs fiber sugar of
        Inl e \<Rightarrow>
          \<lparr>text_of = Msg (''Error creating custom food: '' @ str_exn e),
           calls = [Call_CustomFood_create food_name serving_unit number_of_units calories
                      protein fat carbs fiber sugar]\<rparr>
      | Inr result \<Rightarrow>
          \<lparr>text_of = Doc (curate_search_result result),
           calls = [Call_CustomFood_create food_name serving_unit number_of_units calories
                      protein fat carbs fiber sugar]\<rparr>)"

definition delete_custom_food :: "garth \<Rightarrow> str_or_int \<Rightarrow> outcome" where
  "delete_custom_food g food_id =
     (let food_id = py_str food_id
      in case CustomFood_delete g food_id of
           Inl e \<Rightarrow>
             \<lparr>text_of = Msg (''Error deleting custom food: '' @ str_exn e),
              calls = [Call_CustomFood_delete food_id]\<rparr>
         | Inr u \<Rightarrow>
             \<lparr>text_of = Doc [(''status'', PStr ''success''), (''food_id'', PStr food_id)],
              calls = [Call_CustomFood_delete food_id]\<rparr>)"

subsection \<open>Custom meal tools\<close>

definition list_custom_meals :: "garth \<Rightarrow> string \<Rightarrow> int \<Rightarrow> int \<Rightarrow> outcome" where
  "list_custom_meals g query start limit =
     (case CustomMeal_list g query start limit of
        Inl e \<Rightarrow>
          \<lparr>text_of = Msg (''Error listing custom meals: '' @ str_exn e),
           calls = [Call_CustomMeal_list query start limit]\<rparr>
      | Inr meals \<Rightarrow>
          \<lparr>text_of = Doc [(''custom_meals'', curate_all (cml_items meals)),
                          (''has_more'', cml_has_more meals)],
           calls = [Call_CustomMeal_list query start limit]\<rparr>)"

text \<open>The argument \<^verbatim>\<open>foods_json: str | list\<close>.\<close>

datatype foods_arg = FoodsText string | FoodsList "pyval list"

text \<open>
  The two \<^verbatim>\<open>except\<close> clauses of \<^verbatim>\<open>create_custom_meal\<close>, tried in the source's
  order: \<^verbatim>\<open>json.JSONDecodeError\<close> first, then \<^verbatim>\<open>Exception\<close>.
\<close>

fun custom_meal_except :: "exn \<Rightarrow> reply" where
  "custom_meal_except (JSONDecodeError m) = Msg ''Error: foods_json is not valid JSON''"
| "custom_meal_except e = Msg (''Error creating custom meal: '' @ str_exn e)"

text \<open>The \<^verbatim>\<open>try\<close> body from \<^verbatim>\<open>CustomMeal.create\<close> on, after \<open>tr\<close> was traced.\<close>

definition custom_meal_create_from ::
  "garth \<Rightarrow> string \<Rightarrow> pyval list \<Rightarrow> call list \<Rightarrow> outcome" where
  "custom_meal_create_from g name foods tr =
     (case CustomMeal_create g name foods of
        Inl e \<Rightarrow>
          \<lparr>text_of = custom_meal_except e,
           calls = tr @ [Call_CustomMeal_create name foods]\<rparr>
      | Inr result \<Rightarrow>
          (let curated = [(''custom_meal_id'', cmd_custom_meal_id result),
                          (''name'', cmd_name result),
                          (''food_count'', PInt (int (length (cmd_foods result))))];
               curated = (case cmd_content_summary result of
                            None \<Rightarrow> curated
                          | Some cs \<Rightarrow>
                              dict_set curated ''totals''
                                (PDict (curate_nutrition_content (Some cs))))
           in \<lparr>text_of = Doc curated,
               calls = tr @ [Call_CustomMeal_create name foods]\<rparr>))"

definition create_custom_meal :: "garth \<Rightarrow> string \<Rightarrow> foods_arg \<Rightarrow> outcome" where
  "create_custom_meal g name foods_json =
     (case foods_json of
        FoodsList foods \<Rightarrow> custom_meal_create_from g name foods []
      | FoodsText s \<Rightarrow>
          (case json_loads g s of
             Inl e \<Rightarrow> \<lparr>text_of = custom_meal_except e, calls = [Call_json_loads s]\<rparr>
           | Inr v \<Rightarrow>
               (case v of
                  PList foods \<Rightarrow> custom_meal_create_from g name foods [Call_json_loads s]
                | _ \<Rightarrow>
                    \<lparr>text_of = Msg ''Error: foods_json must be a JSON array'',
                     calls = [Call_json_loads s]\<rparr>)))"

section \<open>The string operations on ASCII text\<close>

text \<open>
  What \<^verbatim>\<open>str.upper\<close>, \<^verbatim>\<open>str.strip\<close> and \<^verbatim>\<open>repr\<close> compute on text
  whose code points are all below 128: there \<^verbatim>\<open>upper\<close> maps a to z onto A to Z,
  \<^verbatim>\<open>strip\<close> removes the code points 9 to 13 and 28 to 32 from both ends, and
  \<^verbatim>\<open>repr\<close> quotes with single quotes (with double quotes when the text holds a
  single quote and no double quote) and escapes the quote, the backslash and the control
  characters. They stand for the interpreter's operations only in the examples below, all of
  which are ASCII text; every theorem about the resolver and the handlers is stated for
  arbitrary operations.
\<close>

definition ascii_isspace :: "char \<Rightarrow> bool" where
  "ascii_isspace c = (of_char c \<in> {9, 10, 11, 12, 13, 28, 29, 30, 31, 32 :: nat})"

definition ascii_strip :: "string \<Rightarrow> string" where
  "ascii_strip s = rev (dropWhile ascii_isspace (rev (dropWhile ascii_isspace s)))"

definition ascii_upper_char :: "char \<Rightarrow> char" where
  "ascii_upper_char c =
     (let n = of_char c :: nat
      in if 97 \<le> n \<and> n \<le> 122 then char_of (n - 32) else c)"

definition ascii_upper :: "string \<Rightarrow> string" where
  "ascii_upper s = map ascii_upper_char s"

definition hex_digit :: "nat \<Rightarrow> char" where
  "hex_digit n = (if n < 10 then char_of (48 + n) else char_of (87 + n))"

definition ascii_repr_char :: "char \<Rightarrow> char \<Rightarrow> string" where
  "ascii_repr_char quote c =
     (let n = of_char c :: nat
      in if c = quote \<or> c = CHR 0x5C then [CHR 0x5C, c]
         else if n = 9 then [CHR 0x5C, CHR ''t'']
         else if n = 10 then [CHR 0x5C, CHR ''n'']
         else if n = 13 then [CHR 0x5C, CHR ''r'']
         else if n < 32 \<or> n = 127
           then [CHR 0x5C, CHR ''x'', hex_digit (n div 16), hex_digit (n mod 16)]
         else [c])"

definition ascii_repr :: "string \<Rightarrow> string" where
  "ascii_repr s =
     (let quote = (if CHR 0x27 \<in> set s \<and> CHR 0x22 \<notin> set s then CHR 0x22 else CHR 0x27)
      in [quote] @ concat (map (ascii_repr_char quote) s) @ [quote])"

definition ascii_text :: builtins where
  "ascii_text = \<lparr>str_upper = ascii_upper, str_strip = ascii_strip, str_repr = ascii_repr\<rparr>"

section \<open>Test fixtures\<close>

text \<open>
  The mock objects of \<^verbatim>\<open>tests/fixtures/garmin_responses.py\<close>, as the integration tests
  build them, and a client whose every operation raises, which the tests then patch one
  operation at a time.
\<close>

definition no_content :: NutritionContent where
  "no_content =
     \<lparr>nc_serving_id = PNone, nc_serving_unit = PNone, nc_number_of_units = PNone,
      nc_calories = PNone, nc_protein = PNone, nc_fat = PNone, nc_carbs = PNone,
      nc_fiber = PNone, nc_sugar = PNone\<rparr>"

definition macros :: "rat \<Rightarrow> rat \<Rightarrow> rat \<Rightarrow> rat \<Rightarrow> NutritionContent" where
  "macros c p f cb =
     no_content\<lparr>nc_calories := PFloat c, nc_protein := PFloat p, nc_fat := PFloat f,
                 nc_carbs := PFloat cb\<rparr>"

definition MOCK_MEAL_DEFINITIONS :: "Meal list" where
  "MOCK_MEAL_DEFINITIONS =
     [\<lparr>meal_id = 645041, meal_name = ''Breakfast''\<rparr>,
      \<lparr>meal_id = 645042, meal_name = ''Lunch''\<rparr>,
      \<lparr>meal_id = 645043, meal_name = ''Dinner''\<rparr>,
      \<lparr>meal_id = 645044, meal_name = ''Snacks''\<rparr>]"

definition oatmeal_meta :: FoodMetaData where
  "oatmeal_meta =
     \<lparr>fm_food_id = PStr ''5367'', fm_food_name = PStr ''Oatmeal'', fm_brand_name = PNone,
      fm_source = PStr ''FATSECRET''\<rparr>"

definition oatmeal_logged :: LoggedFood where
  "oatmeal_logged =
     \<lparr>lf_log_id = PStr ''abc123'',
      lf_food_meta_data = Some oatmeal_meta,
      lf_serving_qty = PFloat 1,
      lf_selected_nutrition_content =
        Some ((macros 150 5 3 27)\<lparr>nc_serving_id := PStr ''54047'',
                                  nc_serving_unit := PStr ''cup''\<rparr>)\<rparr>"

definition MOCK_DAILY_NUTRITION_LOG :: DailyNutritionLog where
  "MOCK_DAILY_NUTRITION_LOG =
     \<lparr>meal_date = PStr ''2024-01-15'',
      daily_nutrition_goals =
        Some \<lparr>mg_calories = PFloat 2200, mg_protein = PFloat 120, mg_fat = PFloat 73,
              mg_carbs = PFloat 275\<rparr>,
      daily_nutrition_content = Some (macros 1850 95 62 220),
      meal_details =
        [\<lparr>md_meal = \<lparr>meal_id = 645041, meal_name = ''Breakfast''\<rparr>,
          md_meal_nutrition_content = Some (macros 450 25 15 55),
          md_logged_foods = Some [oatmeal_logged]\<rparr>,
         \<lparr>md_meal = \<lparr>meal_id = 645042, meal_name = ''Lunch''\<rparr>,
          md_meal_nutrition_content = Some (macros 700 40 25 80),
          md_logged_foods = Some []\<rparr>]\<rparr>"

definition food_item :: "string \<Rightarrow> string \<Rightarrow> string \<Rightarrow> NutritionContent \<Rightarrow> pyval \<Rightarrow> SearchResult"
  where
  "food_item fid fname src nc fav =
     \<lparr>sr_food_meta_data =
        Some \<lparr>fm_food_id = PStr fid, fm_food_name = PStr fname, fm_brand_name = PNone,
              fm_source = PStr src\<rparr>,
      sr_nutrition_contents = Some [nc],
      sr_is_favorite = fav\<rparr>"

definition serving :: "string \<Rightarrow> string \<Rightarrow> rat \<Rightarrow> NutritionContent" where
  "serving sid unit c =
     no_content\<lparr>nc_serving_id := PStr sid, nc_serving_unit := PStr unit,
                 nc_calories := PFloat c\<rparr>"

definition MOCK_FOOD_SEARCH_RESULTS :: SearchResults where
  "MOCK_FOOD_SEARCH_RESULTS =
     \<lparr>srs_results =
        [food_item ''5367'' ''Apple'' ''FATSECRET''
           ((serving ''54047'' ''medium'' 95)
              \<lparr>nc_number_of_units := PFloat 1, nc_protein := PFloat (1 / 2),
               nc_fat := PFloat (3 / 10), nc_carbs := PFloat 25,
               nc_fiber := PFloat (44 / 10)\<rparr>)
           (PBool False)],
      srs_more_data_available = PBool True\<rparr>"

definition MOCK_RECENT_FOODS :: RecentFoods where
  "MOCK_RECENT_FOODS =
     \<lparr>rf_frequent_foods =
        [food_item ''5367'' ''Oatmeal'' ''FATSECRET'' (serving ''54047'' ''cup'' 150) PNone],
      rf_recent_foods =
        [food_item ''9999'' ''Banana'' ''FATSECRET'' (serving ''99001'' ''medium'' 105) PNone]\<rparr>"

definition MOCK_FAVORITE_FOODS :: FavoriteFoodList where
  "MOCK_FAVORITE_FOODS =
     \<lparr>ffl_items =
        [food_item ''5367'' ''Oatmeal'' ''FATSECRET'' (serving ''54047'' ''cup'' 150)
           (PBool True)],
      ffl_has_more = PBool False\<rparr>"

definition MOCK_CUSTOM_FOODS :: CustomFoodList where
  "MOCK_CUSTOM_FOODS =
     \<lparr>cfl_items =
        [food_item ''custom1'' ''My Protein Shake'' ''GARMIN''
           ((serving ''cs1'' ''SERVING'' 200)\<lparr>nc_protein := PFloat 30\<rparr>) PNone],
      cfl_more_data_available = PBool False\<rparr>"

definition MOCK_CUSTOM_MEALS :: CustomMealList where
  "MOCK_CUSTOM_MEALS =
     \<lparr>cml_items =
        [food_item ''meal1'' ''Morning Bowl'' ''GARMIN''
           (no_content\<lparr>nc_calories := PFloat 450, nc_protein := PFloat 25\<rparr>) PNone],
      cml_has_more = PBool False\<rparr>"

text \<open>A client on which every operation, and \<^verbatim>\<open>json.loads\<close>, raises \<open>e\<close>.\<close>

definition raising :: "exn \<Rightarrow> garth" where
  "raising e =
     \<lparr>MealDefinitions_get = (\<lambda>day. Inl e),
      DailyNutritionLog_get = (\<lambda>day. Inl e),
      NutritionSettings_get = (\<lambda>day. Inl e),
      FoodSearch_search = (\<lambda>query start limit. Inl e),
      FoodSearch_recent = (\<lambda>mid day. Inl e),
      FavoriteFoods_list = (\<lambda>query start limit. Inl e),
      CustomFood_list = (\<lambda>query start limit. Inl e),
      FoodLog_add = (\<lambda>day mid food_id serving_id source serving_qty. Inl e),
      QuickAdd_add = (\<lambda>day mid name calories protein fat carbs. Inl e),
      FoodLog_update = (\<lambda>day log_id mid food_id serving_id source serving_qty. Inl e),
      FoodLog_remove = (\<lambda>day log_ids. Inl e),
      FavoriteFoods_add = (\<lambda>food_id serving_id source serving_qty. Inl e),
      FavoriteFoods_remove = (\<lambda>food_id. Inl e),
      CustomFood_create =
        (\<lambda>food_name serving_unit number_of_units calories protein fat carbs fiber sugar. Inl e),
      CustomFood_delete = (\<lambda>food_id. Inl e),
      CustomMeal_list = (\<lambda>query start limit. Inl e),
      CustomMeal_create = (\<lambda>name foods. Inl e),
      json_loads = (\<lambda>s. Inl e)\<rparr>"

text \<open>The client of the tests: the patched operations return the fixtures.\<close>

definition mock_garth :: garth where
  "mock_garth =
     (raising (Exception ''API down''))
       \<lparr>MealDefinitions_get := (\<lambda>day. Inr MOCK_MEAL_DEFINITIONS),
        DailyNutritionLog_get := (\<lambda>day. Inr MOCK_DAILY_NUTRITION_LOG),
        FoodSearch_search := (\<lambda>query start limit. Inr MOCK_FOOD_SEARCH_RESULTS),
        FoodSearch_recent := (\<lambda>mid day. Inr MOCK_RECENT_FOODS),
        FavoriteFoods_list := (\<lambda>query start limit. Inr MOCK_FAVORITE_FOODS),
        CustomFood_list := (\<lambda>query start limit. Inr MOCK_CUSTOM_FOODS),
        CustomMeal_list := (\<lambda>query start limit. Inr MOCK_CUSTOM_MEALS),
        FoodLog_remove := (\<lambda>day log_ids. Inr ())\<rparr>"

section \<open>Dictionaries: keys, values and lookups\<close>

lemma keys_Nil: "keys [] = []"
  by (simp add: keys_def)

lemma keys_Cons: "keys ((k, v) # d) = k # keys d"
  by (simp add: keys_def)

lemma drop_none_Nil: "drop_none [] = []"
  by (simp add: drop_none_def)

lemma drop_none_Cons:
  "drop_none ((k, v) # d) = (if v = PNone then drop_none d else (k, v) # drop_none d)"
  by (simp add: drop_none_def)

lemma in_keys_drop_none_Cons:
  "x \<in> set (keys (drop_none ((k, v) # d))) \<longleftrightarrow>
     (x = k \<and> v \<noteq> PNone) \<or> x \<in> set (keys (drop_none d))"
  by (simp add: drop_none_Cons keys_Cons)

lemma in_keys_drop_none_Nil: "x \<in> set (keys (drop_none [])) \<longleftrightarrow> False"
  by (simp add: drop_none_Nil keys_Nil)

lemma map_of_dict_set: "map_of (dict_set d k v) = (map_of d)(k \<mapsto> v)"
  by (induction d k v rule: dict_set.induct) (auto simp: fun_eq_iff)

lemma dict_get_dict_set:
  "dict_get (dict_set d k v) k' = (if k' = k then Some v else dict_get d k')"
  by (simp add: dict_get_def map_of_dict_set)

lemma keys_dict_set: "set (keys (dict_set d k v)) = insert k (set (keys d))"
  by (induction d k v rule: dict_set.induct) (auto simp: keys_Nil keys_Cons)

lemma keys_dict_update: "set (keys (dict_update d e)) = set (keys d) \<union> set (keys e)"
  by (induction d e rule: dict_update.induct) (simp_all add: keys_dict_set keys_Nil keys_Cons)

lemma vals_dict_set: "snd ` set (dict_set d k v) \<subseteq> insert v (snd ` set d)"
  by (induction d k v rule: dict_set.induct) auto

lemma vals_dict_update: "snd ` set (dict_update d e) \<subseteq> snd ` set d \<union> snd ` set e"
proof (induction d e rule: dict_update.induct)
  case (1 d)
  then show ?case by simp
next
  case (2 d k v e)
  have "snd ` set (dict_set d k v) \<subseteq> insert v (snd ` set d)" by (rule vals_dict_set)
  with 2 show ?case by auto
qed

lemma vals_drop_none: "PNone \<notin> snd ` set (drop_none d)"
  by (auto simp: drop_none_def)

lemma nutrition_content_key:
  "x \<in> set (keys (curate_nutrition_content (Some nc))) \<longleftrightarrow>
       (x = ''serving_id'' \<and> nc_serving_id nc \<noteq> PNone)
     \<or> (x = ''serving_unit'' \<and> nc_serving_unit nc \<noteq> PNone)
     \<or> (x = ''number_of_units'' \<and> nc_number_of_units nc \<noteq> PNone)
     \<or> (x = ''calories'' \<and> nc_calories nc \<noteq> PNone)
     \<or> (x = ''protein'' \<and> nc_protein nc \<noteq> PNone)
     \<or> (x = ''fat'' \<and> nc_fat nc \<noteq> PNone)
     \<or> (x = ''carbs'' \<and> nc_carbs nc \<noteq> PNone)
     \<or> (x = ''fiber'' \<and> nc_fiber nc \<noteq> PNone)
     \<or> (x = ''sugar'' \<and> nc_sugar nc \<noteq> PNone)"
  unfolding curate_nutrition_content_def option.case
  by (simp only: in_keys_drop_none_Cons in_keys_drop_none_Nil simp_thms)

lemma food_meta_key:
  "x \<in> set (keys (curate_food_meta (Some fm))) \<longleftrightarrow>
       (x = ''food_id'' \<and> fm_food_id fm \<noteq> PNone)
     \<or> (x = ''food_name'' \<and> fm_food_name fm \<noteq> PNone)
     \<or> (x = ''brand_name'' \<and> fm_brand_name fm \<noteq> PNone)
     \<or> (x = ''source'' \<and> fm_source fm \<noteq> PNone)"
  unfolding curate_food_meta_def option.case
  by (simp only: in_keys_drop_none_Cons in_keys_drop_none_Nil simp_thms)

lemma food_meta_keys_None: "keys (curate_food_meta None) = []"
  by (simp add: curate_food_meta_def keys_Nil)

lemma nutrition_content_no_null: "PNone \<notin> snd ` set (curate_nutrition_content nc)"
  by (cases nc) (simp_all add: curate_nutrition_content_def vals_drop_none)

lemma food_meta_no_null: "PNone \<notin> snd ` set (curate_food_meta fm)"
  by (cases fm) (simp_all add: curate_food_meta_def vals_drop_none)

lemma truthy_not_none: "truthy v \<Longrightarrow> v \<noteq> PNone"
  by (cases v) simp_all

lemma no_null_dict_set:
  "PNone \<notin> snd ` set d \<Longrightarrow> v \<noteq> PNone \<Longrightarrow> PNone \<notin> snd ` set (dict_set d k v)"
  by (induction d k v rule: dict_set.induct) auto

lemma no_null_dict_update:
  "PNone \<notin> snd ` set d \<Longrightarrow> PNone \<notin> snd ` set e \<Longrightarrow> PNone \<notin> snd ` set (dict_update d e)"
proof (induction d e rule: dict_update.induct)
  case (1 d)
  then show ?case by simp
next
  case (2 d k v e)
  from 2 have "v \<noteq> PNone" by auto
  with 2 have "PNone \<notin> snd ` set (dict_set d k v)" by (simp add: no_null_dict_set)
  moreover from 2 have "PNone \<notin> snd ` set e" by auto
  ultimately have "PNone \<notin> snd ` set (dict_update (dict_set d k v) e)" by (rule 2)
  then show ?case by simp
qed

lemma logged_food_no_null: "PNone \<notin> snd ` set (curate_logged_food lf)"
proof -
  define a where
    "a = (if truthy (lf_log_id lf) then dict_set [] ''log_id'' (lf_log_id lf) else [])"
  define b where "b = dict_update a (curate_food_meta (lf_food_meta_data lf))"
  define c where
    "c = (if lf_serving_qty lf \<noteq> PNone then dict_set b ''serving_qty'' (lf_serving_qty lf)
          else b)"
  define d where
    "d = (case lf_selected_nutrition_content lf of
            None \<Rightarrow> c
          | Some nc \<Rightarrow> dict_set c ''nutrition'' (PDict (curate_nutrition_content (Some nc))))"
  have a: "PNone \<notin> snd ` set a"
  proof (cases "truthy (lf_log_id lf)")
    case True
    then have "lf_log_id lf \<noteq> PNone" by (rule truthy_not_none)
    with True show ?thesis by (simp add: a_def)
  next
    case False
    then show ?thesis by (simp add: a_def)
  qed
  have b: "PNone \<notin> snd ` set b"
    unfolding b_def using a food_meta_no_null by (rule no_null_dict_update)
  have c: "PNone \<notin> snd ` set c"
  proof (cases "lf_serving_qty lf = PNone")
    case True
    with b show ?thesis by (simp add: c_def)
  next
    case False
    with b have "PNone \<notin> snd ` set (dict_set b ''serving_qty'' (lf_serving_qty lf))"
      by (rule no_null_dict_set)
    with False show ?thesis by (simp add: c_def)
  qed
  have d: "PNone \<notin> snd ` set d"
  proof (cases "lf_selected_nutrition_content lf")
    case None
    with c show ?thesis by (simp add: d_def)
  next
    case (Some nc)
    have "PDict (curate_nutrition_content (Some nc)) \<noteq> PNone" by simp
    with c have "PNone \<notin> snd ` set (dict_set c ''nutrition''
                   (PDict (curate_nutrition_content (Some nc))))"
      by (rule no_null_dict_set)
    with Some show ?thesis by (simp add: d_def)
  qed
  have "curate_logged_food lf = d"
    unfolding curate_logged_food_def Let_def a_def b_def c_def d_def by (rule refl)
  with d show ?thesis by simp
qed

lemma logged_food_keys:
  "set (keys (curate_logged_food lf)) =
     (if truthy (lf_log_id lf) then {''log_id''} else {})
     \<union> set (keys (curate_food_meta (lf_food_meta_data lf)))
     \<union> (if lf_serving_qty lf \<noteq> PNone then {''serving_qty''} else {})
     \<union> (if lf_selected_nutrition_content lf \<noteq> None then {''nutrition''} else {})"
proof -
  define A where "A = set (keys (curate_food_meta (lf_food_meta_data lf)))"
  let ?a = "if truthy (lf_log_id lf) then dict_set [] ''log_id'' (lf_log_id lf) else []"
  let ?b = "dict_update ?a (curate_food_meta (lf_food_meta_data lf))"
  let ?c = "if lf_serving_qty lf \<noteq> PNone then dict_set ?b ''serving_qty'' (lf_serving_qty lf)
            else ?b"
  let ?d = "case lf_selected_nutrition_content lf of
              None \<Rightarrow> ?c
            | Some nc \<Rightarrow> dict_set ?c ''nutrition'' (PDict (curate_nutrition_content (Some nc)))"
  have a: "set (keys ?a) = (if truthy (lf_log_id lf) then {''log_id''} else {})"
    by (simp add: keys_Nil keys_Cons)
  have b: "set (keys ?b) = set (keys ?a) \<union> A"
    unfolding A_def by (rule keys_dict_update)
  have c: "set (keys ?c) =
             set (keys ?b) \<union> (if lf_serving_qty lf \<noteq> PNone then {''serving_qty''} else {})"
    by (simp add: keys_dict_set)
  have d: "set (keys ?d) =
             set (keys ?c) \<union> (if lf_selected_nutrition_content lf \<noteq> None then {''nutrition''} else {})"
    by (cases "lf_selected_nutrition_content lf") (simp_all add: keys_dict_set)
  have "curate_logged_food lf = ?d"
    by (simp add: curate_logged_food_def Let_def)
  then show ?thesis
    unfolding A_def [symmetric] using a b c d by simp
qed

lemma daily_log_keys:
  "keys (curate_daily_log dlog) =
     (if meal_date dlog = PNone then [] else [''date''])
       @ [''daily_goals'', ''daily_totals'', ''meals'']"
  by (simp add: curate_daily_log_def Let_def drop_none_Cons drop_none_Nil keys_Cons keys_Nil)

lemma daily_log_no_null: "PNone \<notin> snd ` set (curate_daily_log dlog)"
  by (simp add: curate_daily_log_def Let_def vals_drop_none)

lemma daily_log_goals:
  "dict_get (curate_daily_log dlog) ''daily_goals''
     = Some (PDict (goals_of (daily_nutrition_goals dlog)))"
  by (simp add: curate_daily_log_def Let_def drop_none_Cons drop_none_Nil dict_get_def)

lemma daily_log_totals:
  "dict_get (curate_daily_log dlog) ''daily_totals''
     = Some (PDict (totals_of (daily_nutrition_content dlog)))"
  by (simp add: curate_daily_log_def Let_def drop_none_Cons drop_none_Nil dict_get_def)

lemma daily_log_meals:
  "dict_get (curate_daily_log dlog) ''meals''
     = Some (PList (map (\<lambda>md. PDict (curate_meal_detail md)) (meal_details dlog)))"
  by (simp add: curate_daily_log_def Let_def drop_none_Cons drop_none_Nil dict_get_def)

lemma meal_detail_keys:
  "keys (curate_meal_detail md) =
     [''meal_name'', ''meal_id'']
       @ (if md_meal_nutrition_content md \<noteq> None then [''totals''] else [])
       @ (if md_logged_foods md \<noteq> None \<and> md_logged_foods md \<noteq> Some [] then [''foods''] else [])"
  by (cases "md_meal_nutrition_content md"; cases "md_logged_foods md")
     (simp_all add: curate_meal_detail_def Let_def keys_Cons keys_Nil)

lemma meal_detail_name:
  "dict_get (curate_meal_detail md) ''meal_name'' = Some (PStr (meal_name (md_meal md)))"
  by (cases "md_meal_nutrition_content md"; cases "md_logged_foods md")
     (simp_all add: curate_meal_detail_def Let_def dict_get_def)

lemma meal_detail_id:
  "dict_get (curate_meal_detail md) ''meal_id'' = Some (PInt (meal_id (md_meal md)))"
  by (cases "md_meal_nutrition_content md"; cases "md_logged_foods md")
     (simp_all add: curate_meal_detail_def Let_def dict_get_def)

lemma meal_detail_totals:
  "dict_get (curate_meal_detail md) ''totals'' =
     (case md_meal_nutrition_content md of
        None \<Rightarrow> None
      | Some nc \<Rightarrow> Some (PDict (curate_nutrition_content (Some nc))))"
  by (cases "md_meal_nutrition_content md"; cases "md_logged_foods md")
     (simp_all add: curate_meal_detail_def Let_def dict_get_def)

lemma meal_detail_foods:
  "dict_get (curate_meal_detail md) ''foods'' =
     (case md_logged_foods md of
        None \<Rightarrow> None
      | Some fs \<Rightarrow> if fs = [] then None
                   else Some (PList (map (\<lambda>f. PDict (curate_logged_food f)) fs)))"
  by (cases "md_meal_nutrition_content md"; cases "md_logged_foods md")
     (simp_all add: curate_meal_detail_def Let_def dict_get_def)

lemma dict_get_drop_none_Cons:
  "dict_get (drop_none ((k, v) # d)) x =
     (if x = k \<and> v \<noteq> PNone then Some v else dict_get (drop_none d) x)"
  by (simp add: drop_none_Cons dict_get_def)

lemma dict_get_drop_none_Nil: "dict_get (drop_none []) x = None"
  by (simp add: drop_none_Nil dict_get_def)

lemma dict_get_Nil: "dict_get [] x = None"
  by (simp add: dict_get_def)

lemma food_meta_get_servings: "dict_get (curate_food_meta fm) ''servings'' = None"
proof (cases fm)
  case None
  then show ?thesis by (simp add: curate_food_meta_def dict_get_Nil)
next
  case (Some a)
  then show ?thesis
    by (simp add: curate_food_meta_def dict_get_drop_none_Cons dict_get_drop_none_Nil)
qed

lemma search_result_servings:
  "dict_get (curate_search_result sr) ''servings'' =
     (case sr_nutrition_contents sr of
        None \<Rightarrow> None
      | Some ncs \<Rightarrow> if ncs = [] then None
                    else Some (PList (map (\<lambda>nc. PDict (curate_nutrition_content (Some nc))) ncs)))"
  by (cases "sr_nutrition_contents sr")
     (simp_all add: curate_search_result_def Let_def dict_get_dict_set food_meta_get_servings)

section \<open>Null pruning of the curated mappings\<close>

lemma nutrition_content_keys_iff:
  "(''serving_id'' \<in> set (keys (curate_nutrition_content (Some nc))) \<longleftrightarrow> nc_serving_id nc \<noteq> PNone)
 \<and> (''serving_unit'' \<in> set (keys (curate_nutrition_content (Some nc))) \<longleftrightarrow> nc_serving_unit nc \<noteq> PNone)
 \<and> (''number_of_units'' \<in> set (keys (curate_nutrition_content (Some nc)))
        \<longleftrightarrow> nc_number_of_units nc \<noteq> PNone)
 \<and> (''calories'' \<in> set (keys (curate_nutrition_content (Some nc))) \<longleftrightarrow> nc_calories nc \<noteq> PNone)
 \<and> (''protein'' \<in> set (keys (curate_nutrition_content (Some nc))) \<longleftrightarrow> nc_protein nc \<noteq> PNone)
 \<and> (''fat'' \<in> set (keys (curate_nutrition_content (Some nc))) \<longleftrightarrow> nc_fat nc \<noteq> PNone)
 \<and> (''carbs'' \<in> set (keys (curate_nutrition_content (Some nc))) \<longleftrightarrow> nc_carbs nc \<noteq> PNone)
 \<and> (''fiber'' \<in> set (keys (curate_nutrition_content (Some nc))) \<longleftrightarrow> nc_fiber nc \<noteq> PNone)
 \<and> (''sugar'' \<in> set (keys (curate_nutrition_content (Some nc))) \<longleftrightarrow> nc_sugar nc \<noteq> PNone)"
  by (simp add: nutrition_content_key)

lemma food_meta_keys_iff:
  "(''food_id'' \<in> set (keys (curate_food_meta (Some fm))) \<longleftrightarrow> fm_food_id fm \<noteq> PNone)
 \<and> (''food_name'' \<in> set (keys (curate_food_meta (Some fm))) \<longleftrightarrow> fm_food_name fm \<noteq> PNone)
 \<and> (''brand_name'' \<in> set (keys (curate_food_meta (Some fm))) \<longleftrightarrow> fm_brand_name fm \<noteq> PNone)
 \<and> (''source'' \<in> set (keys (curate_food_meta (Some fm))) \<longleftrightarrow> fm_source fm \<noteq> PNone)"
  by (simp add: food_meta_key)

lemma food_meta_in_keys:
  "x \<in> set (keys (curate_food_meta fmo)) \<longleftrightarrow>
     (case fmo of
        None \<Rightarrow> False
      | Some fm \<Rightarrow>
            (x = ''food_id'' \<and> fm_food_id fm \<noteq> PNone)
          \<or> (x = ''food_name'' \<and> fm_food_name fm \<noteq> PNone)
          \<or> (x = ''brand_name'' \<and> fm_brand_name fm \<noteq> PNone)
          \<or> (x = ''source'' \<and> fm_source fm \<noteq> PNone))"
proof (cases fmo)
  case None
  then show ?thesis by (simp add: food_meta_keys_None)
next
  case (Some fm)
  then show ?thesis by (simp only: food_meta_key option.case)
qed

lemma logged_food_keys_iff:
  "(''log_id'' \<in> set (keys (curate_logged_food lf)) \<longleftrightarrow> truthy (lf_log_id lf))
 \<and> (''food_id'' \<in> set (keys (curate_logged_food lf)) \<longleftrightarrow>
        (case lf_food_meta_data lf of None \<Rightarrow> False | Some fm \<Rightarrow> fm_food_id fm \<noteq> PNone))
 \<and> (''food_name'' \<in> set (keys (curate_logged_food lf)) \<longleftrightarrow>
        (case lf_food_meta_data lf of None \<Rightarrow> False | Some fm \<Rightarrow> fm_food_name fm \<noteq> PNone))
 \<and> (''brand_name'' \<in> set (keys (curate_logged_food lf)) \<longleftrightarrow>
        (case lf_food_meta_data lf of None \<Rightarrow> False | Some fm \<Rightarrow> fm_brand_name fm \<noteq> PNone))
 \<and> (''source'' \<in> set (keys (curate_logged_food lf)) \<longleftrightarrow>
        (case lf_food_meta_data lf of None \<Rightarrow> False | Some fm \<Rightarrow> fm_source fm \<noteq> PNone))
 \<and> (''serving_qty'' \<in> set (keys (curate_logged_food lf)) \<longleftrightarrow> lf_serving_qty lf \<noteq> PNone)
 \<and> (''nutrition'' \<in> set (keys (curate_logged_food lf)) \<longleftrightarrow>
        lf_selected_nutrition_content lf \<noteq> None)"
  by (cases "lf_food_meta_data lf") (simp_all add: logged_food_keys food_meta_in_keys)

lemma daily_log_keys_iff:
  "(''date'' \<in> set (keys (curate_daily_log dlog)) \<longleftrightarrow> meal_date dlog \<noteq> PNone)
 \<and> ''daily_goals'' \<in> set (keys (curate_daily_log dlog))
 \<and> ''daily_totals'' \<in> set (keys (curate_daily_log dlog))
 \<and> ''meals'' \<in> set (keys (curate_daily_log dlog))"
  by (simp add: daily_log_keys)

lemma meal_detail_keys_iff:
  "''meal_name'' \<in> set (keys (curate_meal_detail md))
 \<and> ''meal_id'' \<in> set (keys (curate_meal_detail md))
 \<and> (''totals'' \<in> set (keys (curate_meal_detail md)) \<longleftrightarrow> md_meal_nutrition_content md \<noteq> None)
 \<and> (''foods'' \<in> set (keys (curate_meal_detail md)) \<longleftrightarrow>
        md_logged_foods md \<noteq> None \<and> md_logged_foods md \<noteq> Some [])"
  by (simp add: meal_detail_keys)

text \<open>
  C1 (amended). A curated key is present exactly when its source value is observed, where
  observed means not null for every field of the nutrition content and the food meta data, for
  the food meta fields, the serving quantity and the selected nutrition content of a logged
  food, and for the date of a daily log; the log id of a logged food is present exactly
  when it is truthy; the daily goals, daily totals and meals of a daily log are always
  present, and so are the meal name and meal id of each of its meal entries, whose totals are
  present exactly when the meal nutrition content is not null and whose foods are present
  exactly when the logged foods are a list that is not empty. No key of any of the four
  curated mappings maps to null.
\<close>

theorem curated_keys_observed:
  "((''serving_id'' \<in> set (keys (curate_nutrition_content (Some nc))) \<longleftrightarrow> nc_serving_id nc \<noteq> PNone)
  \<and> (''serving_unit'' \<in> set (keys (curate_nutrition_content (Some nc))) \<longleftrightarrow> nc_serving_unit nc \<noteq> PNone)
  \<and> (''number_of_units'' \<in> set (keys (curate_nutrition_content (Some nc)))
        \<longleftrightarrow> nc_number_of_units nc \<noteq> PNone)
  \<and> (''calories'' \<in> set (keys (curate_nutrition_content (Some nc))) \<longleftrightarrow> nc_calories nc \<noteq> PNone)
  \<and> (''protein'' \<in> set (keys (curate_nutrition_content (Some nc))) \<longleftrightarrow> nc_protein nc \<noteq> PNone)
  \<and> (''fat'' \<in> set (keys (curate_nutrition_content (Some nc))) \<longleftrightarrow> nc_fat nc \<noteq> PNone)
  \<and> (''carbs'' \<in> set (keys (curate_nutrition_content (Some nc))) \<longleftrightarrow> nc_carbs nc \<noteq> PNone)
  \<and> (''fiber'' \<in> set (keys (curate_nutrition_content (Some nc))) \<longleftrightarrow> nc_fiber nc \<noteq> PNone)
  \<and> (''sugar'' \<in> set (keys (curate_nutrition_content (Some nc))) \<longleftrightarrow> nc_sugar nc \<noteq> PNone))
 \<and> ((''food_id'' \<in> set (keys (curate_food_meta (Some fm))) \<longleftrightarrow> fm_food_id fm \<noteq> PNone)
  \<and> (''food_name'' \<in> set (keys (curate_food_meta (Some fm))) \<longleftrightarrow> fm_food_name fm \<noteq> PNone)
  \<and> (''brand_name'' \<in> set (keys (curate_food_meta (Some fm))) \<longleftrightarrow> fm_brand_name fm \<noteq> PNone)
  \<and> (''source'' \<in> set (keys (curate_food_meta (Some fm))) \<longleftrightarrow> fm_source fm \<noteq> PNone))
 \<and> ((''log_id'' \<in> set (keys (curate_logged_food lf)) \<longleftrightarrow> truthy (lf_log_id lf))
  \<and> (''food_id'' \<in> set (keys (curate_logged_food lf)) \<longleftrightarrow>
        (case lf_food_meta_data lf of None \<Rightarrow> False | Some fm \<Rightarrow> fm_food_id fm \<noteq> PNone))
  \<and> (''food_name'' \<in> set (keys (curate_logged_food lf)) \<longleftrightarrow>
        (case lf_food_meta_data lf of None \<Rightarrow> False | Some fm \<Rightarrow> fm_food_name fm \<noteq> PNone))
  \<and> (''brand_name'' \<in> set (keys (curate_logged_food lf)) \<longleftrightarrow>
        (case lf_food_meta_data lf of None \<Rightarrow> False | Some fm \<Rightarrow> fm_brand_name fm \<noteq> PNone))
  \<and> (''source'' \<in> set (keys (curate_logged_food lf)) \<longleftrightarrow>
        (case lf_food_meta_data lf of None \<Rightarrow> False | Some fm \<Rightarrow> fm_source fm \<noteq> PNone))
  \<and> (''serving_qty'' \<in> set (keys (curate_logged_food lf)) \<longleftrightarrow> lf_serving_qty lf \<noteq> PNone)
  \<and> (''nutrition'' \<in> set (keys (curate_logged_food lf)) \<longleftrightarrow>
        lf_selected_nutrition_content lf \<noteq> None))
 \<and> ((''date'' \<in> set (keys (curate_daily_log dlog)) \<longleftrightarrow> meal_date dlog \<noteq> PNone)
  \<and> ''daily_goals'' \<in> set (keys (curate_daily_log dlog))
  \<and> ''daily_totals'' \<in> set (keys (curate_daily_log dlog))
  \<and> ''meals'' \<in> set (keys (curate_daily_log dlog)))
 \<and> (''meal_name'' \<in> set (keys (curate_meal_detail md))
  \<and> ''meal_id'' \<in> set (keys (curate_meal_detail md))
  \<and> (''totals'' \<in> set (keys (curate_meal_detail md)) \<longleftrightarrow> md_meal_nutrition_content md \<noteq> None)
  \<and> (''foods'' \<in> set (keys (curate_meal_detail md)) \<longleftrightarrow>
        md_logged_foods md \<noteq> None \<and> md_logged_foods md \<noteq> Some []))
 \<and> PNone \<notin> snd ` set (curate_nutrition_content nco)
 \<and> PNone \<notin> snd ` set (curate_food_meta fmo)
 \<and> PNone \<notin> snd ` set (curate_logged_food lf)
 \<and> PNone \<notin> snd ` set (curate_daily_log dlog)"
  by (rule conjI [OF nutrition_content_keys_iff
        conjI [OF food_meta_keys_iff
          conjI [OF logged_food_keys_iff
            conjI [OF daily_log_keys_iff
              conjI [OF meal_detail_keys_iff
                conjI [OF nutrition_content_no_null
                  conjI [OF food_meta_no_null
                    conjI [OF logged_food_no_null daily_log_no_null]]]]]]]])

theorem curated_keys_observed_witness:
  "''calories'' \<in> set (keys (curate_nutrition_content (Some (macros 0 5 3 27))))
 \<and> ''fiber'' \<notin> set (keys (curate_nutrition_content (Some (macros 0 5 3 27))))
 \<and> ''food_id'' \<in> set (keys (curate_logged_food (oatmeal_logged\<lparr>lf_serving_qty := PInt 0\<rparr>)))
 \<and> ''food_name'' \<in> set (keys (curate_logged_food (oatmeal_logged\<lparr>lf_serving_qty := PInt 0\<rparr>)))
 \<and> ''brand_name'' \<notin> set (keys (curate_logged_food (oatmeal_logged\<lparr>lf_serving_qty := PInt 0\<rparr>)))
 \<and> ''serving_qty'' \<in> set (keys (curate_logged_food (oatmeal_logged\<lparr>lf_serving_qty := PInt 0\<rparr>)))
 \<and> ''log_id'' \<in> set (keys (curate_logged_food (oatmeal_logged\<lparr>lf_serving_qty := PInt 0\<rparr>)))
 \<and> ''date'' \<in> set (keys (curate_daily_log MOCK_DAILY_NUTRITION_LOG))
 \<and> PNone \<notin> snd ` set (curate_daily_log MOCK_DAILY_NUTRITION_LOG)"
  using curated_keys_observed [of "macros 0 5 3 27" oatmeal_meta
      "oatmeal_logged\<lparr>lf_serving_qty := PInt 0\<rparr>" MOCK_DAILY_NUTRITION_LOG _ None None]
  by (simp add: macros_def no_content_def oatmeal_logged_def oatmeal_meta_def
      MOCK_DAILY_NUTRITION_LOG_def)

theorem curated_keys_counterexample:
  "md_logged_foods (meal_details MOCK_DAILY_NUTRITION_LOG ! 1) = Some []
 \<and> ''foods'' \<notin> set (keys (curate_meal_detail (meal_details MOCK_DAILY_NUTRITION_LOG ! 1)))
 \<and> lf_log_id (oatmeal_logged\<lparr>lf_log_id := PStr []\<rparr>) \<noteq> PNone
 \<and> ''log_id'' \<notin> set (keys (curate_logged_food (oatmeal_logged\<lparr>lf_log_id := PStr []\<rparr>)))
 \<and> daily_nutrition_goals (MOCK_DAILY_NUTRITION_LOG\<lparr>daily_nutrition_goals := None\<rparr>) = None
 \<and> ''daily_goals''
      \<in> set (keys (curate_daily_log (MOCK_DAILY_NUTRITION_LOG\<lparr>daily_nutrition_goals := None\<rparr>)))"
  by (simp add: logged_food_keys daily_log_keys meal_detail_keys food_meta_in_keys
      oatmeal_logged_def oatmeal_meta_def MOCK_DAILY_NUTRITION_LOG_def)

text \<open>
  C10. The curated daily log always holds the keys daily_goals, daily_totals and meals, and
  the summary always holds totals and goals: the final pruning of the full log removes the
  date alone, and only when it is null; a missing goal or total object gives the empty
  mapping and no meal details give the empty list, which are kept.
\<close>

theorem daily_containers_always_present:
  "keys (curate_daily_log dlog) =
     (if meal_date dlog = PNone then [] else [''date''])
       @ [''daily_goals'', ''daily_totals'', ''meals'']
 \<and> dict_get (curate_daily_log dlog) ''daily_goals''
      = Some (PDict (goals_of (daily_nutrition_goals dlog)))
 \<and> dict_get (curate_daily_log dlog) ''daily_totals''
      = Some (PDict (totals_of (daily_nutrition_content dlog)))
 \<and> dict_get (curate_daily_log dlog) ''meals''
      = Some (PList (map (\<lambda>md. PDict (curate_meal_detail md)) (meal_details dlog)))
 \<and> goals_of None = []
 \<and> totals_of None = []
 \<and> (DailyNutritionLog_get g date = Inr dlog \<longrightarrow>
      text_of (get_nutrition_summary g date) =
        Doc [(''date'', meal_date dlog),
             (''totals'', PDict (totals_of (daily_nutrition_content dlog))),
             (''goals'', PDict (goals_of (daily_nutrition_goals dlog)))])"
proof -
  have summary: "DailyNutritionLog_get g date = Inr dlog \<longrightarrow>
      text_of (get_nutrition_summary g date) =
        Doc [(''date'', meal_date dlog),
             (''totals'', PDict (totals_of (daily_nutrition_content dlog))),
             (''goals'', PDict (goals_of (daily_nutrition_goals dlog)))]"
    by (simp add: get_nutrition_summary_def Let_def)
  have g0: "goals_of None = []" by (simp add: goals_of_def)
  have t0: "totals_of None = []" by (simp add: totals_of_def)
  show ?thesis
    by (rule conjI [OF daily_log_keys
          conjI [OF daily_log_goals
            conjI [OF daily_log_totals
              conjI [OF daily_log_meals conjI [OF g0 conjI [OF t0 summary]]]]]])
qed

theorem daily_containers_always_present_witness:
  "curate_daily_log
     \<lparr>meal_date = PNone, daily_nutrition_goals = None, daily_nutrition_content = None,
      meal_details = []\<rparr>
   = [(''daily_goals'', PDict []), (''daily_totals'', PDict []), (''meals'', PList [])]
 \<and> text_of (get_nutrition_summary
      ((raising (Exception ''API down''))
         \<lparr>DailyNutritionLog_get :=
            (\<lambda>day. Inr \<lparr>meal_date = PNone, daily_nutrition_goals = None,
                         daily_nutrition_content = None, meal_details = []\<rparr>)\<rparr>)
      ''2024-01-15'')
   = Doc [(''date'', PNone), (''totals'', PDict []), (''goals'', PDict [])]"
proof -
  let ?empty = "\<lparr>meal_date = PNone, daily_nutrition_goals = None,
                  daily_nutrition_content = None, meal_details = []\<rparr>"
  let ?g = "(raising (Exception ''API down''))\<lparr>DailyNutritionLog_get := (\<lambda>day. Inr ?empty)\<rparr>"
  have get: "DailyNutritionLog_get ?g ''2024-01-15'' = Inr ?empty" by simp
  have a: "curate_daily_log ?empty
             = [(''daily_goals'', PDict []), (''daily_totals'', PDict []), (''meals'', PList [])]"
    by (simp add: curate_daily_log_def Let_def goals_of_def totals_of_def drop_none_Cons
        drop_none_Nil)
  from daily_containers_always_present [of ?empty ?g "''2024-01-15''"] get
  have "text_of (get_nutrition_summary ?g ''2024-01-15'')
          = Doc [(''date'', PNone), (''totals'', PDict []), (''goals'', PDict [])]"
    by simp
  with a show ?thesis by simp
qed

section \<open>Summary and full daily log\<close>

lemma goals_of_get:
  "dict_get (goals_of (Some mg)) ''calories''
     = (if mg_calories mg = PNone then None else Some (mg_calories mg))
 \<and> dict_get (goals_of (Some mg)) ''protein''
     = (if mg_protein mg = PNone then None else Some (mg_protein mg))
 \<and> dict_get (goals_of (Some mg)) ''fat''
     = (if mg_fat mg = PNone then None else Some (mg_fat mg))
 \<and> dict_get (goals_of (Some mg)) ''carbs''
     = (if mg_carbs mg = PNone then None else Some (mg_carbs mg))"
  by (simp add: goals_of_def dict_get_drop_none_Cons dict_get_drop_none_Nil)

lemma totals_of_get:
  "dict_get (totals_of (Some t)) ''calories''
     = (if nc_calories t = PNone then None else Some (nc_calories t))
 \<and> dict_get (totals_of (Some t)) ''protein''
     = (if nc_protein t = PNone then None else Some (nc_protein t))
 \<and> dict_get (totals_of (Some t)) ''fat''
     = (if nc_fat t = PNone then None else Some (nc_fat t))
 \<and> dict_get (totals_of (Some t)) ''carbs''
     = (if nc_carbs t = PNone then None else Some (nc_carbs t))"
  by (simp add: totals_of_def dict_get_drop_none_Cons dict_get_drop_none_Nil)

lemma summary_doc:
  "DailyNutritionLog_get g date = Inr dlog \<Longrightarrow>
     text_of (get_nutrition_summary g date) =
       Doc [(''date'', meal_date dlog),
            (''totals'', PDict (totals_of (daily_nutrition_content dlog))),
            (''goals'', PDict (goals_of (daily_nutrition_goals dlog)))]"
  by (simp add: get_nutrition_summary_def Let_def)

lemma full_log_doc:
  "DailyNutritionLog_get g date = Inr dlog \<Longrightarrow>
     text_of (get_nutrition_log g date) = Doc (curate_daily_log dlog)"
  by (simp add: get_nutrition_log_def)

lemma meal_detail_entry:
  "dict_get (curate_meal_detail md) ''meal_name'' = Some (PStr (meal_name (md_meal md)))
 \<and> dict_get (curate_meal_detail md) ''meal_id'' = Some (PInt (meal_id (md_meal md)))
 \<and> (''totals'' \<in> set (keys (curate_meal_detail md)) \<longleftrightarrow> md_meal_nutrition_content md \<noteq> None)
 \<and> (''foods'' \<in> set (keys (curate_meal_detail md)) \<longleftrightarrow>
        md_logged_foods md \<noteq> None \<and> md_logged_foods md \<noteq> Some [])
 \<and> dict_get (curate_meal_detail md) ''totals'' =
       (case md_meal_nutrition_content md of
          None \<Rightarrow> None
        | Some nc \<Rightarrow> Some (PDict (curate_nutrition_content (Some nc))))
 \<and> dict_get (curate_meal_detail md) ''foods'' =
       (case md_logged_foods md of
          None \<Rightarrow> None
        | Some fs \<Rightarrow> if fs = [] then None
                     else Some (PList (map (\<lambda>f. PDict (curate_logged_food f)) fs)))"
proof -
  have t: "''totals'' \<in> set (keys (curate_meal_detail md)) \<longleftrightarrow> md_meal_nutrition_content md \<noteq> None"
    by (simp add: meal_detail_keys)
  have f: "''foods'' \<in> set (keys (curate_meal_detail md)) \<longleftrightarrow>
             md_logged_foods md \<noteq> None \<and> md_logged_foods md \<noteq> Some []"
    by (simp add: meal_detail_keys)
  show ?thesis
    by (rule conjI [OF meal_detail_name
          conjI [OF meal_detail_id
            conjI [OF t conjI [OF f conjI [OF meal_detail_totals meal_detail_foods]]]]])
qed

text \<open>
  C7. On one daily log, the summary is the mapping with exactly the keys date, totals and
  goals, where totals and goals hold the calories, protein, fat and carbs of the source that
  are not null, and it has no meals; the full log holds a meals list with one entry per
  meal detail, each with meal_name and meal_id, with totals exactly when the source has a
  meal nutrition content and foods exactly when the source has logged foods.
\<close>

theorem summary_versus_full_log:
  assumes "DailyNutritionLog_get g date = Inr dlog"
  shows
    "(\<exists>s. text_of (get_nutrition_summary g date) = Doc s
         \<and> keys s = [''date'', ''totals'', ''goals'']
         \<and> dict_get s ''date'' = Some (meal_date dlog)
         \<and> dict_get s ''totals'' = Some (PDict (totals_of (daily_nutrition_content dlog)))
         \<and> dict_get s ''goals'' = Some (PDict (goals_of (daily_nutrition_goals dlog)))
         \<and> dict_get s ''meals'' = None)
   \<and> (dict_get (goals_of (Some mg)) ''calories''
         = (if mg_calories mg = PNone then None else Some (mg_calories mg))
      \<and> dict_get (goals_of (Some mg)) ''protein''
         = (if mg_protein mg = PNone then None else Some (mg_protein mg))
      \<and> dict_get (goals_of (Some mg)) ''fat''
         = (if mg_fat mg = PNone then None else Some (mg_fat mg))
      \<and> dict_get (goals_of (Some mg)) ''carbs''
         = (if mg_carbs mg = PNone then None else Some (mg_carbs mg)))
   \<and> (dict_get (totals_of (Some t)) ''calories''
         = (if nc_calories t = PNone then None else Some (nc_calories t))
      \<and> dict_get (totals_of (Some t)) ''protein''
         = (if nc_protein t = PNone then None else Some (nc_protein t))
      \<and> dict_get (totals_of (Some t)) ''fat''
         = (if nc_fat t = PNone then None else Some (nc_fat t))
      \<and> dict_get (totals_of (Some t)) ''carbs''
         = (if nc_carbs t = PNone then None else Some (nc_carbs t)))
   \<and> text_of (get_nutrition_log g date) = Doc (curate_daily_log dlog)
   \<and> dict_get (curate_daily_log dlog) ''meals''
        = Some (PList (map (\<lambda>md. PDict (curate_meal_detail md)) (meal_details dlog)))
   \<and> (dict_get (curate_meal_detail md) ''meal_name'' = Some (PStr (meal_name (md_meal md)))
      \<and> dict_get (curate_meal_detail md) ''meal_id'' = Some (PInt (meal_id (md_meal md)))
      \<and> (''totals'' \<in> set (keys (curate_meal_detail md))
           \<longleftrightarrow> md_meal_nutrition_content md \<noteq> None)
      \<and> (''foods'' \<in> set (keys (curate_meal_detail md)) \<longleftrightarrow>
             md_logged_foods md \<noteq> None \<and> md_logged_foods md \<noteq> Some [])
      \<and> dict_get (curate_meal_detail md) ''totals'' =
           (case md_meal_nutrition_content md of
              None \<Rightarrow> None
            | Some nc \<Rightarrow> Some (PDict (curate_nutrition_content (Some nc))))
      \<and> dict_get (curate_meal_detail md) ''foods'' =
           (case md_logged_foods md of
              None \<Rightarrow> None
            | Some fs \<Rightarrow> if fs = [] then None
                         else Some (PList (map (\<lambda>f. PDict (curate_logged_food f)) fs))))"
proof -
  let ?s = "[(''date'', meal_date dlog),
             (''totals'', PDict (totals_of (daily_nutrition_content dlog))),
             (''goals'', PDict (goals_of (daily_nutrition_goals dlog)))]"
  have s1: "text_of (get_nutrition_summary g date) = Doc ?s"
    using assms by (rule summary_doc)
  have s2: "keys ?s = [''date'', ''totals'', ''goals'']"
    by (simp add: keys_def)
  have s3: "dict_get ?s ''date'' = Some (meal_date dlog)"
    by (simp add: dict_get_def)
  have s4: "dict_get ?s ''totals'' = Some (PDict (totals_of (daily_nutrition_content dlog)))"
    by (simp add: dict_get_def)
  have s5: "dict_get ?s ''goals'' = Some (PDict (goals_of (daily_nutrition_goals dlog)))"
    by (simp add: dict_get_def)
  have s6: "dict_get ?s ''meals'' = None"
    by (simp add: dict_get_def)
  have summary: "\<exists>s. text_of (get_nutrition_summary g date) = Doc s
         \<and> keys s = [''date'', ''totals'', ''goals'']
         \<and> dict_get s ''date'' = Some (meal_date dlog)
         \<and> dict_get s ''totals'' = Some (PDict (totals_of (daily_nutrition_content dlog)))
         \<and> dict_get s ''goals'' = Some (PDict (goals_of (daily_nutrition_goals dlog)))
         \<and> dict_get s ''meals'' = None"
    by (rule exI [of _ ?s])
       (rule conjI [OF s1 conjI [OF s2 conjI [OF s3 conjI [OF s4 conjI [OF s5 s6]]]]])
  have full: "text_of (get_nutrition_log g date) = Doc (curate_daily_log dlog)"
    using assms by (rule full_log_doc)
  show ?thesis
    by (rule conjI [OF summary
          conjI [OF goals_of_get
            conjI [OF totals_of_get
              conjI [OF full conjI [OF daily_log_meals meal_detail_entry]]]]])
qed

theorem summary_versus_full_log_witness:
  "text_of (get_nutrition_summary mock_garth ''2024-01-15'') =
     Doc [(''date'', PStr ''2024-01-15''),
          (''totals'', PDict [(''calories'', PFloat 1850), (''protein'', PFloat 95),
                             (''fat'', PFloat 62), (''carbs'', PFloat 220)]),
          (''goals'', PDict [(''calories'', PFloat 2200), (''protein'', PFloat 120),
                            (''fat'', PFloat 73), (''carbs'', PFloat 275)])]
 \<and> text_of (get_nutrition_log mock_garth ''2024-01-15'') = Doc (curate_daily_log MOCK_DAILY_NUTRITION_LOG)
 \<and> dict_get (curate_daily_log MOCK_DAILY_NUTRITION_LOG) ''meals''
      = Some (PList (map (\<lambda>md. PDict (curate_meal_detail md))
                       (meal_details MOCK_DAILY_NUTRITION_LOG)))
 \<and> length (meal_details MOCK_DAILY_NUTRITION_LOG) = 2
 \<and> dict_get (curate_meal_detail (hd (meal_details MOCK_DAILY_NUTRITION_LOG))) ''meal_name''
      = Some (PStr ''Breakfast'')"
proof -
  have get: "DailyNutritionLog_get mock_garth ''2024-01-15'' = Inr MOCK_DAILY_NUTRITION_LOG"
    by (simp add: mock_garth_def)
  note w = summary_versus_full_log [OF get,
      of _ _ "hd (meal_details MOCK_DAILY_NUTRITION_LOG)"]
  have a: "text_of (get_nutrition_summary mock_garth ''2024-01-15'') =
     Doc [(''date'', PStr ''2024-01-15''),
          (''totals'', PDict [(''calories'', PFloat 1850), (''protein'', PFloat 95),
                             (''fat'', PFloat 62), (''carbs'', PFloat 220)]),
          (''goals'', PDict [(''calories'', PFloat 2200), (''protein'', PFloat 120),
                            (''fat'', PFloat 73), (''carbs'', PFloat 275)])]"
    using summary_doc [OF get]
    by (simp add: MOCK_DAILY_NUTRITION_LOG_def goals_of_def totals_of_def macros_def
        no_content_def drop_none_Cons drop_none_Nil)
  have b: "text_of (get_nutrition_log mock_garth ''2024-01-15'')
             = Doc (curate_daily_log MOCK_DAILY_NUTRITION_LOG)"
    by (rule w [THEN conjunct2, THEN conjunct2, THEN conjunct2, THEN conjunct1])
  have c: "dict_get (curate_daily_log MOCK_DAILY_NUTRITION_LOG) ''meals''
      = Some (PList (map (\<lambda>md. PDict (curate_meal_detail md))
                       (meal_details MOCK_DAILY_NUTRITION_LOG)))"
    by (rule w [THEN conjunct2, THEN conjunct2, THEN conjunct2, THEN conjunct2,
          THEN conjunct1])
  have d: "length (meal_details MOCK_DAILY_NUTRITION_LOG) = 2"
    by (simp add: MOCK_DAILY_NUTRITION_LOG_def)
  have "dict_get (curate_meal_detail (hd (meal_details MOCK_DAILY_NUTRITION_LOG))) ''meal_name''
          = Some (PStr (meal_name (md_meal (hd (meal_details MOCK_DAILY_NUTRITION_LOG)))))"
    by (rule w [THEN conjunct2, THEN conjunct2, THEN conjunct2, THEN conjunct2,
          THEN conjunct2, THEN conjunct1])
  then have e: "dict_get (curate_meal_detail (hd (meal_details MOCK_DAILY_NUTRITION_LOG)))
                  ''meal_name'' = Some (PStr ''Breakfast'')"
    by (simp add: MOCK_DAILY_NUTRITION_LOG_def)
  show ?thesis
    by (rule conjI [OF a conjI [OF b conjI [OF c conjI [OF d e]]]])
qed

section \<open>Curated collections and listing envelopes\<close>

lemma search_foods_doc:
  "FoodSearch_search g query start limit = Inr rs \<Longrightarrow>
     text_of (search_foods g query start limit) =
       Doc [(''query'', PStr query),
            (''results'', PList (map (\<lambda>r. PDict (curate_search_result r)) (srs_results rs))),
            (''has_more'', srs_more_data_available rs)]"
  by (simp add: search_foods_def curate_all_def)

lemma list_favorite_foods_doc:
  "FavoriteFoods_list g query start limit = Inr favs \<Longrightarrow>
     text_of (list_favorite_foods g query start limit) =
       Doc [(''favorites'', PList (map (\<lambda>r. PDict (curate_search_result r)) (ffl_items favs))),
            (''has_more'', ffl_has_more favs)]"
  by (simp add: list_favorite_foods_def curate_all_def)

lemma list_custom_foods_doc:
  "CustomFood_list g query start limit = Inr foods \<Longrightarrow>
     text_of (list_custom_foods g query start limit) =
       Doc [(''custom_foods'',
               PList (map (\<lambda>r. PDict (curate_search_result r)) (cfl_items foods))),
            (''has_more'', cfl_more_data_available foods)]"
  by (simp add: list_custom_foods_def curate_all_def)

lemma list_custom_meals_doc:
  "CustomMeal_list g query start limit = Inr meals \<Longrightarrow>
     text_of (list_custom_meals g query start limit) =
       Doc [(''custom_meals'',
               PList (map (\<lambda>r. PDict (curate_search_result r)) (cml_items meals))),
            (''has_more'', cml_has_more meals)]"
  by (simp add: list_custom_meals_def curate_all_def)

lemma get_recent_foods_doc:
  "MealDefinitions_get g day = Inr meals \<Longrightarrow> resolve_in b meals meal = Inr mid \<Longrightarrow>
   FoodSearch_recent g mid day = Inr recent \<Longrightarrow>
     text_of (get_recent_foods b g meal day) =
       Doc [(''meal'', PStr (str_upper b meal)),
            (''frequent_foods'',
               PList (map (\<lambda>r. PDict (curate_search_result r)) (rf_frequent_foods recent))),
            (''recent_foods'',
               PList (map (\<lambda>r. PDict (curate_search_result r)) (rf_recent_foods recent)))]"
  by (simp add: get_recent_foods_def resolve_meal_id_def curate_all_def)

text \<open>
  C8 (amended). Every curated collection that is emitted is the source sequence curated
  element by element: the output list is the map of the element curator over the source
  list, so it has the same length and the element at each position is the curated source
  element of that position. The results of a search, the frequent and recent foods, the
  favorites, the custom foods, the custom meals and the meals of a daily log are always
  emitted, also when empty. The logged foods of a meal and the servings of a search result
  are emitted only when the source list is not empty: for an empty or null source list the
  key foods, or servings, is absent and there is no output list.
\<close>

theorem curated_collections_keep_count_and_order:
  "(FoodSearch_search g query start limit = Inr rs \<longrightarrow>
      (\<exists>d. text_of (search_foods g query start limit) = Doc d
          \<and> dict_get d ''results''
              = Some (PList (map (\<lambda>r. PDict (curate_search_result r)) (srs_results rs)))))
 \<and> (MealDefinitions_get g day = Inr meals \<and> resolve_in b meals meal = Inr mid
      \<and> FoodSearch_recent g mid day = Inr recent \<longrightarrow>
      (\<exists>d. text_of (get_recent_foods b g meal day) = Doc d
          \<and> dict_get d ''frequent_foods''
              = Some (PList (map (\<lambda>r. PDict (curate_search_result r)) (rf_frequent_foods recent)))
          \<and> dict_get d ''recent_foods''
              = Some (PList (map (\<lambda>r. PDict (curate_search_result r)) (rf_recent_foods recent)))))
 \<and> (FavoriteFoods_list g query start limit = Inr favs \<longrightarrow>
      (\<exists>d. text_of (list_favorite_foods g query start limit) = Doc d
          \<and> dict_get d ''favorites''
              = Some (PList (map (\<lambda>r. PDict (curate_search_result r)) (ffl_items favs)))))
 \<and> (CustomFood_list g query start limit = Inr foods \<longrightarrow>
      (\<exists>d. text_of (list_custom_foods g query start limit) = Doc d
          \<and> dict_get d ''custom_foods''
              = Some (PList (map (\<lambda>r. PDict (curate_search_result r)) (cfl_items foods)))))
 \<and> (CustomMeal_list g query start limit = Inr cmeals \<longrightarrow>
      (\<exists>d. text_of (list_custom_meals g query start limit) = Doc d
          \<and> dict_get d ''custom_meals''
              = Some (PList (map (\<lambda>r. PDict (curate_search_result r)) (cml_items cmeals)))))
 \<and> dict_get (curate_daily_log dlog) ''meals''
      = Some (PList (map (\<lambda>md. PDict (curate_meal_detail md)) (meal_details dlog)))
 \<and> dict_get (curate_meal_detail md) ''foods'' =
      (case md_logged_foods md of
         None \<Rightarrow> None
       | Some fs \<Rightarrow> if fs = [] then None
                    else Some (PList (map (\<lambda>f. PDict (curate_logged_food f)) fs)))
 \<and> dict_get (curate_search_result sr) ''servings'' =
      (case sr_nutrition_contents sr of
         None \<Rightarrow> None
       | Some ncs \<Rightarrow> if ncs = [] then None
                     else Some (PList (map (\<lambda>nc. PDict (curate_nutrition_content (Some nc))) ncs)))"
proof -
  have a: "FoodSearch_search g query start limit = Inr rs \<longrightarrow>
      (\<exists>d. text_of (search_foods g query start limit) = Doc d
          \<and> dict_get d ''results''
              = Some (PList (map (\<lambda>r. PDict (curate_search_result r)) (srs_results rs))))"
    by (simp add: search_foods_doc dict_get_def)
  have b: "MealDefinitions_get g day = Inr meals \<and> resolve_in b meals meal = Inr mid
      \<and> FoodSearch_recent g mid day = Inr recent \<longrightarrow>
      (\<exists>d. text_of (get_recent_foods b g meal day) = Doc d
          \<and> dict_get d ''frequent_foods''
              = Some (PList (map (\<lambda>r. PDict (curate_search_result r)) (rf_frequent_foods recent)))
          \<and> dict_get d ''recent_foods''
              = Some (PList (map (\<lambda>r. PDict (curate_search_result r)) (rf_recent_foods recent))))"
    by (simp add: get_recent_foods_doc dict_get_def)
  have c: "FavoriteFoods_list g query start limit = Inr favs \<longrightarrow>
      (\<exists>d. text_of (list_favorite_foods g query start limit) = Doc d
          \<and> dict_get d ''favorites''
              = Some (PList (map (\<lambda>r. PDict (curate_search_result r)) (ffl_items favs))))"
    by (simp add: list_favorite_foods_doc dict_get_def)
  have d: "CustomFood_list g query start limit = Inr foods \<longrightarrow>
      (\<exists>d. text_of (list_custom_foods g query start limit) = Doc d
          \<and> dict_get d ''custom_foods''
              = Some (PList (map (\<lambda>r. PDict (curate_search_result r)) (cfl_items foods))))"
    by (simp add: list_custom_foods_doc dict_get_def)
  have e: "CustomMeal_list g query start limit = Inr cmeals \<longrightarrow>
      (\<exists>d. text_of (list_custom_meals g query start limit) = Doc d
          \<and> dict_get d ''custom_meals''
              = Some (PList (map (\<lambda>r. PDict (curate_search_result r)) (cml_items cmeals))))"
    by (simp add: list_custom_meals_doc dict_get_def)
  show ?thesis
    by (rule conjI [OF a conjI [OF b conjI [OF c conjI [OF d conjI [OF e
          conjI [OF daily_log_meals conjI [OF meal_detail_foods search_result_servings]]]]]]])
qed

lemma mock_calls:
  "FoodSearch_search mock_garth q s l = Inr MOCK_FOOD_SEARCH_RESULTS"
  "MealDefinitions_get mock_garth day = Inr MOCK_MEAL_DEFINITIONS"
  "FoodSearch_recent mock_garth mid day = Inr MOCK_RECENT_FOODS"
  "FavoriteFoods_list mock_garth q s l = Inr MOCK_FAVORITE_FOODS"
  "CustomFood_list mock_garth q s l = Inr MOCK_CUSTOM_FOODS"
  "CustomMeal_list mock_garth q s l = Inr MOCK_CUSTOM_MEALS"
  "DailyNutritionLog_get mock_garth date = Inr MOCK_DAILY_NUTRITION_LOG"
  by (simp_all add: mock_garth_def)

lemma resolve_breakfast: "resolve_in ascii_text MOCK_MEAL_DEFINITIONS ''BREAKFAST'' = Inr 645041"
  by code_simp

theorem curated_collections_keep_count_and_order_witness:
  "(\<exists>d. text_of (search_foods mock_garth ''apple'' 0 20) = Doc d
       \<and> dict_get d ''results''
           = Some (PList (map (\<lambda>r. PDict (curate_search_result r))
                            (srs_results MOCK_FOOD_SEARCH_RESULTS))))
 \<and> (\<exists>d. text_of (get_recent_foods ascii_text mock_garth ''BREAKFAST'' None) = Doc d
       \<and> dict_get d ''frequent_foods''
           = Some (PList (map (\<lambda>r. PDict (curate_search_result r))
                            (rf_frequent_foods MOCK_RECENT_FOODS)))
       \<and> dict_get d ''recent_foods''
           = Some (PList (map (\<lambda>r. PDict (curate_search_result r))
                            (rf_recent_foods MOCK_RECENT_FOODS))))
 \<and> (\<exists>d. text_of (list_favorite_foods mock_garth [] 0 20) = Doc d
       \<and> dict_get d ''favorites''
           = Some (PList (map (\<lambda>r. PDict (curate_search_result r))
                            (ffl_items MOCK_FAVORITE_FOODS))))
 \<and> (\<exists>d. text_of (list_custom_foods mock_garth [] 0 20) = Doc d
       \<and> dict_get d ''custom_foods''
           = Some (PList (map (\<lambda>r. PDict (curate_search_result r))
                            (cfl_items MOCK_CUSTOM_FOODS))))
 \<and> (\<exists>d. text_of (list_custom_meals mock_garth [] 0 20) = Doc d
       \<and> dict_get d ''custom_meals''
           = Some (PList (map (\<lambda>r. PDict (curate_search_result r))
                            (cml_items MOCK_CUSTOM_MEALS))))
 \<and> length (srs_results MOCK_FOOD_SEARCH_RESULTS) = 1
 \<and> length (meal_details MOCK_DAILY_NUTRITION_LOG) = 2
 \<and> dict_get (curate_meal_detail (meal_details MOCK_DAILY_NUTRITION_LOG ! 0)) ''foods''
      = Some (PList [PDict (curate_logged_food oatmeal_logged)])"
proof -
  note w = curated_collections_keep_count_and_order
    [of mock_garth "''apple''" 0 20 MOCK_FOOD_SEARCH_RESULTS None MOCK_MEAL_DEFINITIONS
      ascii_text "''BREAKFAST''" 645041 MOCK_RECENT_FOODS]
  have a: "\<exists>d. text_of (search_foods mock_garth ''apple'' 0 20) = Doc d
       \<and> dict_get d ''results''
           = Some (PList (map (\<lambda>r. PDict (curate_search_result r))
                            (srs_results MOCK_FOOD_SEARCH_RESULTS)))"
    by (rule w [THEN conjunct1, THEN mp]) (rule mock_calls)
  have b: "\<exists>d. text_of (get_recent_foods ascii_text mock_garth ''BREAKFAST'' None) = Doc d
       \<and> dict_get d ''frequent_foods''
           = Some (PList (map (\<lambda>r. PDict (curate_search_result r))
                            (rf_frequent_foods MOCK_RECENT_FOODS)))
       \<and> dict_get d ''recent_foods''
           = Some (PList (map (\<lambda>r. PDict (curate_search_result r))
                            (rf_recent_foods MOCK_RECENT_FOODS)))"
    by (rule w [THEN conjunct2, THEN conjunct1, THEN mp])
       (simp add: mock_calls resolve_breakfast)
  note v = curated_collections_keep_count_and_order
    [of mock_garth "[]" 0 20 _ _ _ _ _ _ _ MOCK_FAVORITE_FOODS MOCK_CUSTOM_FOODS
      MOCK_CUSTOM_MEALS]
  have c: "\<exists>d. text_of (list_favorite_foods mock_garth [] 0 20) = Doc d
       \<and> dict_get d ''favorites''
           = Some (PList (map (\<lambda>r. PDict (curate_search_result r))
                            (ffl_items MOCK_FAVORITE_FOODS)))"
    by (rule v [THEN conjunct2, THEN conjunct2, THEN conjunct1, THEN mp]) (rule mock_calls)
  have d: "\<exists>d. text_of (list_custom_foods mock_garth [] 0 20) = Doc d
       \<and> dict_get d ''custom_foods''
           = Some (PList (map (\<lambda>r. PDict (curate_search_result r))
                            (cfl_items MOCK_CUSTOM_FOODS)))"
    by (rule v [THEN conjunct2, THEN conjunct2, THEN conjunct2, THEN conjunct1, THEN mp])
       (rule mock_calls)
  have e: "\<exists>d. text_of (list_custom_meals mock_garth [] 0 20) = Doc d
       \<and> dict_get d ''custom_meals''
           = Some (PList (map (\<lambda>r. PDict (curate_search_result r))
                            (cml_items MOCK_CUSTOM_MEALS)))"
    by (rule v [THEN conjunct2, THEN conjunct2, THEN conjunct2, THEN conjunct2,
          THEN conjunct1, THEN mp])
       (rule mock_calls)
  have f: "length (srs_results MOCK_FOOD_SEARCH_RESULTS) = 1"
    by (simp add: MOCK_FOOD_SEARCH_RESULTS_def)
  have g: "length (meal_details MOCK_DAILY_NUTRITION_LOG) = 2"
    by (simp add: MOCK_DAILY_NUTRITION_LOG_def)
  have h: "dict_get (curate_meal_detail (meal_details MOCK_DAILY_NUTRITION_LOG ! 0)) ''foods''
      = Some (PList [PDict (curate_logged_food oatmeal_logged)])"
    using w [where md = "meal_details MOCK_DAILY_NUTRITION_LOG ! 0", THEN conjunct2,
        THEN conjunct2, THEN conjunct2, THEN conjunct2, THEN conjunct2, THEN conjunct2,
        THEN conjunct1]
    by (simp add: MOCK_DAILY_NUTRITION_LOG_def)
  show ?thesis
    by (rule conjI [OF a conjI [OF b conjI [OF c conjI [OF d conjI [OF e conjI [OF f
          conjI [OF g h]]]]]]])
qed

theorem curated_collections_counterexample:
  "md_logged_foods (meal_details MOCK_DAILY_NUTRITION_LOG ! 1) = Some []
 \<and> dict_get (curate_meal_detail (meal_details MOCK_DAILY_NUTRITION_LOG ! 1)) ''foods'' = None
 \<and> sr_nutrition_contents
      \<lparr>sr_food_meta_data = Some oatmeal_meta, sr_nutrition_contents = Some [],
       sr_is_favorite = PNone\<rparr> = Some []
 \<and> dict_get
      (curate_search_result
         \<lparr>sr_food_meta_data = Some oatmeal_meta, sr_nutrition_contents = Some [],
          sr_is_favorite = PNone\<rparr>) ''servings'' = None"
  by (simp add: meal_detail_foods search_result_servings MOCK_DAILY_NUTRITION_LOG_def)

lemma str_int_example: "py_str (IdInt 5367) = ''5367'' \<and> py_str (IdInt (- 12)) = ''-12''"
  by (simp add: str_int_def, code_simp)

text \<open>
  C9 (amended). Every listing envelope carries the flag under the one output key has_more:
  the search and the custom food listing read it from the source attribute
  more_data_available, the favorites and the custom meal listing from the source attribute
  has_more. No envelope has a key more_data_available.
\<close>

theorem listing_envelopes_use_has_more:
  "(FoodSearch_search g query start limit = Inr rs \<longrightarrow>
      text_of (search_foods g query start limit) =
        Doc [(''query'', PStr query),
             (''results'', PList (map (\<lambda>r. PDict (curate_search_result r)) (srs_results rs))),
             (''has_more'', srs_more_data_available rs)])
 \<and> (FavoriteFoods_list g query start limit = Inr favs \<longrightarrow>
      text_of (list_favorite_foods g query start limit) =
        Doc [(''favorites'', PList (map (\<lambda>r. PDict (curate_search_result r)) (ffl_items favs))),
             (''has_more'', ffl_has_more favs)])
 \<and> (CustomFood_list g query start limit = Inr foods \<longrightarrow>
      text_of (list_custom_foods g query start limit) =
        Doc [(''custom_foods'',
                PList (map (\<lambda>r. PDict (curate_search_result r)) (cfl_items foods))),
             (''has_more'', cfl_more_data_available foods)])
 \<and> (CustomMeal_list g query start limit = Inr cmeals \<longrightarrow>
      text_of (list_custom_meals g query start limit) =
        Doc [(''custom_meals'',
                PList (map (\<lambda>r. PDict (curate_search_result r)) (cml_items cmeals))),
             (''has_more'', cml_has_more cmeals)])"
proof -
  have a: "FoodSearch_search g query start limit = Inr rs \<longrightarrow>
      text_of (search_foods g query start limit) =
        Doc [(''query'', PStr query),
             (''results'', PList (map (\<lambda>r. PDict (curate_search_result r)) (srs_results rs))),
             (''has_more'', srs_more_data_available rs)]"
    by (simp add: search_foods_doc)
  have b: "FavoriteFoods_list g query start limit = Inr favs \<longrightarrow>
      text_of (list_favorite_foods g query start limit) =
        Doc [(''favorites'', PList (map (\<lambda>r. PDict (curate_search_result r)) (ffl_items favs))),
             (''has_more'', ffl_has_more favs)]"
    by (simp add: list_favorite_foods_doc)
  have c: "CustomFood_list g query start limit = Inr foods \<longrightarrow>
      text_of (list_custom_foods g query start limit) =
        Doc [(''custom_foods'',
                PList (map (\<lambda>r. PDict (curate_search_result r)) (cfl_items foods))),
             (''has_more'', cfl_more_data_available foods)]"
    by (simp add: list_custom_foods_doc)
  have d: "CustomMeal_list g query start limit = Inr cmeals \<longrightarrow>
      text_of (list_custom_meals g query start limit) =
        Doc [(''custom_meals'',
                PList (map (\<lambda>r. PDict (curate_search_result r)) (cml_items cmeals))),
             (''has_more'', cml_has_more cmeals)]"
    by (simp add: list_custom_meals_doc)
  show ?thesis
    by (rule conjI [OF a conjI [OF b conjI [OF c d]]])
qed

theorem listing_envelopes_use_has_more_witness:
  "text_of (search_foods mock_garth ''apple'' 0 20) =
     Doc [(''query'', PStr ''apple''),
          (''results'', PList (map (\<lambda>r. PDict (curate_search_result r))
                                 (srs_results MOCK_FOOD_SEARCH_RESULTS))),
          (''has_more'', PBool True)]
 \<and> text_of (list_favorite_foods mock_garth [] 0 20) =
     Doc [(''favorites'', PList (map (\<lambda>r. PDict (curate_search_result r))
                                   (ffl_items MOCK_FAVORITE_FOODS))),
          (''has_more'', PBool False)]"
proof -
  note w = listing_envelopes_use_has_more
    [of mock_garth "''apple''" 0 20 MOCK_FOOD_SEARCH_RESULTS]
  note v = listing_envelopes_use_has_more
    [of mock_garth "[]" 0 20 _ MOCK_FAVORITE_FOODS]
  have "text_of (search_foods mock_garth ''apple'' 0 20) =
     Doc [(''query'', PStr ''apple''),
          (''results'', PList (map (\<lambda>r. PDict (curate_search_result r))
                                 (srs_results MOCK_FOOD_SEARCH_RESULTS))),
          (''has_more'', srs_more_data_available MOCK_FOOD_SEARCH_RESULTS)]"
    by (rule w [THEN conjunct1, THEN mp]) (rule mock_calls)
  then have a: "text_of (search_foods mock_garth ''apple'' 0 20) =
     Doc [(''query'', PStr ''apple''),
          (''results'', PList (map (\<lambda>r. PDict (curate_search_result r))
                                 (srs_results MOCK_FOOD_SEARCH_RESULTS))),
          (''has_more'', PBool True)]"
    by (simp add: MOCK_FOOD_SEARCH_RESULTS_def)
  have "text_of (list_favorite_foods mock_garth [] 0 20) =
     Doc [(''favorites'', PList (map (\<lambda>r. PDict (curate_search_result r))
                                   (ffl_items MOCK_FAVORITE_FOODS))),
          (''has_more'', ffl_has_more MOCK_FAVORITE_FOODS)]"
    by (rule v [THEN conjunct2, THEN conjunct1, THEN mp]) (rule mock_calls)
  then have b: "text_of (list_favorite_foods mock_garth [] 0 20) =
     Doc [(''favorites'', PList (map (\<lambda>r. PDict (curate_search_result r))
                                   (ffl_items MOCK_FAVORITE_FOODS))),
          (''has_more'', PBool False)]"
    by (simp add: MOCK_FAVORITE_FOODS_def)
  show ?thesis by (rule conjI [OF a b])
qed

theorem listing_envelopes_counterexample:
  "text_of (list_custom_foods mock_garth [] 0 20) =
     Doc [(''custom_foods'', PList (map (\<lambda>r. PDict (curate_search_result r))
                                      (cfl_items MOCK_CUSTOM_FOODS))),
          (''has_more'', cfl_more_data_available MOCK_CUSTOM_FOODS)]
 \<and> text_of (list_custom_meals mock_garth [] 0 20) =
     Doc [(''custom_meals'', PList (map (\<lambda>r. PDict (curate_search_result r))
                                      (cml_items MOCK_CUSTOM_MEALS))),
          (''has_more'', cml_has_more MOCK_CUSTOM_MEALS)]
 \<and> ''more_data_available''
      \<notin> set (keys [(''custom_foods'', PList (map (\<lambda>r. PDict (curate_search_result r))
                                              (cfl_items MOCK_CUSTOM_FOODS))),
                    (''has_more'', cfl_more_data_available MOCK_CUSTOM_FOODS)])"
  by (simp add: list_custom_foods_doc list_custom_meals_doc mock_calls keys_def)

section \<open>Meal resolution\<close>

lemma scan_meals_find:
  "scan_meals b meals u = map_option meal_id (find (\<lambda>m. str_upper b (meal_name m) = u) meals)"
  by (induction meals) simp_all


lemma resolve_in_find:
  "resolve_in b meals meal =
     (case find (\<lambda>m. str_upper b (meal_name m) = str_upper b (str_strip b meal)) meals of
        Some m \<Rightarrow> Inr (meal_id m)
      | None \<Rightarrow> Inl (ValueError (unknown_meal b meal meals)))"
  by (simp add: resolve_in_def scan_meals_find Let_def split: option.splits)


lemma resolve_in_Inr:
  "resolve_in b meals meal = Inr i
     \<longleftrightarrow> scan_meals b meals (str_upper b (str_strip b meal)) = Some i"
  by (cases "scan_meals b meals (str_upper b (str_strip b meal))")
     (simp_all add: resolve_in_def Let_def)

lemma scan_meals_first:
  "scan_meals b meals u = Some i \<longleftrightarrow>
     (\<exists>k < length meals. str_upper b (meal_name (meals ! k)) = u \<and> i = meal_id (meals ! k)
        \<and> (\<forall>j < k. str_upper b (meal_name (meals ! j)) \<noteq> u))"
proof (induction meals)
  case Nil
  then show ?case by simp
next
  case (Cons m ms)
  show ?case
  proof (cases "str_upper b (meal_name m) = u")
    case True
    have "scan_meals b (m # ms) u = Some i \<longleftrightarrow> i = meal_id m"
      using True by auto
    moreover have "(\<exists>k < length (m # ms). str_upper b (meal_name ((m # ms) ! k)) = u
        \<and> i = meal_id ((m # ms) ! k)
        \<and> (\<forall>j < k. str_upper b (meal_name ((m # ms) ! j)) \<noteq> u)) \<longleftrightarrow> i = meal_id m"
    proof
      assume "\<exists>k < length (m # ms). str_upper b (meal_name ((m # ms) ! k)) = u
        \<and> i = meal_id ((m # ms) ! k)
        \<and> (\<forall>j < k. str_upper b (meal_name ((m # ms) ! j)) \<noteq> u)"
      then obtain k where k: "i = meal_id ((m # ms) ! k)"
        and first: "\<forall>j < k. str_upper b (meal_name ((m # ms) ! j)) \<noteq> u"
        by blast
      have "k = 0"
      proof (rule ccontr)
        assume "k \<noteq> 0"
        then have "0 < k" by simp
        with first have "str_upper b (meal_name ((m # ms) ! 0)) \<noteq> u" by blast
        with True show False by simp
      qed
      with k show "i = meal_id m" by simp
    next
      assume "i = meal_id m"
      with True have "0 < length (m # ms) \<and> str_upper b (meal_name ((m # ms) ! 0)) = u
        \<and> i = meal_id ((m # ms) ! 0)
        \<and> (\<forall>j < 0. str_upper b (meal_name ((m # ms) ! j)) \<noteq> u)"
        by simp
      then show "\<exists>k < length (m # ms). str_upper b (meal_name ((m # ms) ! k)) = u
        \<and> i = meal_id ((m # ms) ! k)
        \<and> (\<forall>j < k. str_upper b (meal_name ((m # ms) ! j)) \<noteq> u)"
        by blast
    qed
    ultimately show ?thesis by simp
  next
    case False
    have l: "scan_meals b (m # ms) u = Some i \<longleftrightarrow>
        (\<exists>k < length ms. str_upper b (meal_name (ms ! k)) = u \<and> i = meal_id (ms ! k)
          \<and> (\<forall>j < k. str_upper b (meal_name (ms ! j)) \<noteq> u))"
      using False Cons.IH by simp
    have r: "(\<exists>k < length (m # ms). str_upper b (meal_name ((m # ms) ! k)) = u
        \<and> i = meal_id ((m # ms) ! k)
        \<and> (\<forall>j < k. str_upper b (meal_name ((m # ms) ! j)) \<noteq> u)) \<longleftrightarrow>
        (\<exists>k < length ms. str_upper b (meal_name (ms ! k)) = u \<and> i = meal_id (ms ! k)
          \<and> (\<forall>j < k. str_upper b (meal_name (ms ! j)) \<noteq> u))"
    proof
      assume "\<exists>k < length (m # ms). str_upper b (meal_name ((m # ms) ! k)) = u
        \<and> i = meal_id ((m # ms) ! k)
        \<and> (\<forall>j < k. str_upper b (meal_name ((m # ms) ! j)) \<noteq> u)"
      then obtain k where k: "k < length (m # ms)"
        and hit: "str_upper b (meal_name ((m # ms) ! k)) = u"
        and i: "i = meal_id ((m # ms) ! k)"
        and first: "\<forall>j < k. str_upper b (meal_name ((m # ms) ! j)) \<noteq> u"
        by blast
      from hit False have "k \<noteq> 0" by (cases k) auto
      then obtain k' where k': "k = Suc k'" by (cases k) auto
      have "\<forall>j < k'. str_upper b (meal_name (ms ! j)) \<noteq> u"
      proof (intro allI impI)
        fix j assume "j < k'"
        then have "Suc j < k" using k' by simp
        with first have "str_upper b (meal_name ((m # ms) ! Suc j)) \<noteq> u" by blast
        then show "str_upper b (meal_name (ms ! j)) \<noteq> u" by simp
      qed
      with k hit i k' have "k' < length ms \<and> str_upper b (meal_name (ms ! k')) = u
          \<and> i = meal_id (ms ! k') \<and> (\<forall>j < k'. str_upper b (meal_name (ms ! j)) \<noteq> u)"
        by simp
      then show "\<exists>k < length ms. str_upper b (meal_name (ms ! k)) = u \<and> i = meal_id (ms ! k)
          \<and> (\<forall>j < k. str_upper b (meal_name (ms ! j)) \<noteq> u)"
        by blast
    next
      assume "\<exists>k < length ms. str_upper b (meal_name (ms ! k)) = u \<and> i = meal_id (ms ! k)
          \<and> (\<forall>j < k. str_upper b (meal_name (ms ! j)) \<noteq> u)"
      then obtain k where k: "k < length ms"
        and hit: "str_upper b (meal_name (ms ! k)) = u"
        and i: "i = meal_id (ms ! k)"
        and first: "\<forall>j < k. str_upper b (meal_name (ms ! j)) \<noteq> u"
        by blast
      have "\<forall>j < Suc k. str_upper b (meal_name ((m # ms) ! j)) \<noteq> u"
      proof (intro allI impI)
        fix j assume j: "j < Suc k"
        show "str_upper b (meal_name ((m # ms) ! j)) \<noteq> u"
        proof (cases j)
          case 0
          with False show ?thesis by simp
        next
          case (Suc j')
          with j have "j' < k" by simp
          with first have "str_upper b (meal_name (ms ! j')) \<noteq> u" by blast
          with Suc show ?thesis by simp
        qed
      qed
      with k hit i have "Suc k < length (m # ms)
          \<and> str_upper b (meal_name ((m # ms) ! Suc k)) = u
          \<and> i = meal_id ((m # ms) ! Suc k)
          \<and> (\<forall>j < Suc k. str_upper b (meal_name ((m # ms) ! j)) \<noteq> u)"
        by simp
      then show "\<exists>k < length (m # ms). str_upper b (meal_name ((m # ms) ! k)) = u
        \<and> i = meal_id ((m # ms) ! k)
        \<and> (\<forall>j < k. str_upper b (meal_name ((m # ms) ! j)) \<noteq> u)"
        by blast
    qed
    show ?thesis using l r by simp
  qed
qed

text \<open>
  C2. When the collaborator returns the meal definitions, the resolver strips the input
  with str.strip, upper-cases it with str.upper and returns the meal_id of the first
  definition whose upper-cased meal name equals it: the id returned is that of the
  definition at the least position that matches. When no definition matches it raises the
  unknown-meal error. Two inputs that agree after stripping and upper-casing, whatever
  their case and their surrounding whitespace, resolve to the same id.
\<close>

theorem resolve_meal_id_first_match:
  assumes "MealDefinitions_get g day = Inr meals"
  shows
    "resolve_meal_id b g meal day =
       (case find (\<lambda>m. str_upper b (meal_name m) = str_upper b (str_strip b meal)) meals of
          Some m \<Rightarrow> Inr (meal_id m)
        | None \<Rightarrow> Inl (ValueError (unknown_meal b meal meals)))
   \<and> (resolve_meal_id b g meal day = Inr i \<longleftrightarrow>
        (\<exists>k < length meals.
            str_upper b (meal_name (meals ! k)) = str_upper b (str_strip b meal)
          \<and> i = meal_id (meals ! k)
          \<and> (\<forall>j < k. str_upper b (meal_name (meals ! j)) \<noteq> str_upper b (str_strip b meal))))
   \<and> (str_upper b (str_strip b meal) = str_upper b (str_strip b meal') \<longrightarrow>
        (resolve_meal_id b g meal day = Inr i \<longleftrightarrow> resolve_meal_id b g meal' day = Inr i))"
proof -
  have r: "resolve_meal_id b g x day = resolve_in b meals x" for x
    using assms by (simp add: resolve_meal_id_def)
  have a: "resolve_meal_id b g meal day =
       (case find (\<lambda>m. str_upper b (meal_name m) = str_upper b (str_strip b meal)) meals of
          Some m \<Rightarrow> Inr (meal_id m)
        | None \<Rightarrow> Inl (ValueError (unknown_meal b meal meals)))"
    unfolding r by (rule resolve_in_find)
  have f: "resolve_meal_id b g meal day = Inr i \<longleftrightarrow>
        (\<exists>k < length meals.
            str_upper b (meal_name (meals ! k)) = str_upper b (str_strip b meal)
          \<and> i = meal_id (meals ! k)
          \<and> (\<forall>j < k. str_upper b (meal_name (meals ! j)) \<noteq> str_upper b (str_strip b meal)))"
    unfolding r resolve_in_Inr by (rule scan_meals_first)
  have c: "str_upper b (str_strip b meal) = str_upper b (str_strip b meal') \<longrightarrow>
        (resolve_meal_id b g meal day = Inr i \<longleftrightarrow> resolve_meal_id b g meal' day = Inr i)"
    unfolding r by (simp add: resolve_in_Inr)
  show ?thesis by (rule conjI [OF a conjI [OF f c]])
qed

lemma ascii_strip_trims:
  assumes a: "\<forall>c \<in> set a. ascii_isspace c" and b: "\<forall>c \<in> set b. ascii_isspace c"
    and s: "s = [] \<or> (\<not> ascii_isspace (hd s) \<and> \<not> ascii_isspace (last s))"
  shows "ascii_strip (a @ s @ b) = s"
proof (cases "s = []")
  case True
  have d: "dropWhile ascii_isspace (a @ b) = []"
    using a b by (simp add: dropWhile_eq_Nil_conv)
  show ?thesis
    unfolding ascii_strip_def True by (simp only: append_Nil d rev.simps dropWhile.simps)
next
  case False
  with s have h: "\<not> ascii_isspace (hd s)" and l: "\<not> ascii_isspace (last s)" by simp_all
  have "dropWhile ascii_isspace (a @ s @ b) = dropWhile ascii_isspace (s @ b)"
    using a by (simp add: dropWhile_append2)
  also have "\<dots> = s @ b"
    using False h by (cases s) simp_all
  finally have 1: "dropWhile ascii_isspace (a @ s @ b) = s @ b" .
  have "ascii_isspace x" if "x \<in> set (rev b)" for x
    using that b by simp
  then have "dropWhile ascii_isspace (rev b @ rev s) = dropWhile ascii_isspace (rev s)"
    by (rule dropWhile_append2)
  also have "\<dots> = rev s"
    using False l by (cases s rule: rev_cases) simp_all
  finally have 2: "dropWhile ascii_isspace (rev b @ rev s) = rev s" .
  show ?thesis by (simp add: ascii_strip_def 1 2)
qed

lemma ascii_upper_idem: "ascii_upper (ascii_upper s) = ascii_upper s"
proof -
  have "ascii_upper_char (ascii_upper_char c) = ascii_upper_char c" for c
  proof (cases "97 \<le> (of_char c :: nat) \<and> (of_char c :: nat) \<le> 122")
    case True
    then have "(of_char c - 32 :: nat) < 256"
      by arith
    then have "of_char (char_of (of_char c - 32 :: nat)) = (of_char c - 32 :: nat)"
      by simp
    moreover have "\<not> 97 \<le> (of_char c - 32 :: nat)"
      using True by arith
    ultimately show ?thesis by (simp add: ascii_upper_char_def Let_def)
  next
    case False
    then have "ascii_upper_char c = c" by (auto simp: ascii_upper_char_def Let_def)
    then show ?thesis by simp
  qed
  then show ?thesis by (simp add: ascii_upper_def)
qed

theorem resolve_meal_id_first_match_witness:
  "resolve_meal_id ascii_text mock_garth ''breakfast'' None = Inr 645041
 \<and> resolve_meal_id ascii_text mock_garth ''BREAKFAST'' None = Inr 645041
 \<and> resolve_meal_id ascii_text mock_garth ''Breakfast'' None = Inr 645041
 \<and> resolve_meal_id ascii_text mock_garth ''  snacks '' None = Inr 645044"
proof -
  have get: "MealDefinitions_get mock_garth None = Inr MOCK_MEAL_DEFINITIONS"
    by (rule mock_calls)
  note w = resolve_meal_id_first_match [OF get, THEN conjunct1]
  have f1: "find (\<lambda>m. str_upper ascii_text (meal_name m)
                        = str_upper ascii_text (str_strip ascii_text ''breakfast''))
              MOCK_MEAL_DEFINITIONS = Some \<lparr>meal_id = 645041, meal_name = ''Breakfast''\<rparr>"
    by code_simp
  have f2: "find (\<lambda>m. str_upper ascii_text (meal_name m)
                        = str_upper ascii_text (str_strip ascii_text ''BREAKFAST''))
              MOCK_MEAL_DEFINITIONS = Some \<lparr>meal_id = 645041, meal_name = ''Breakfast''\<rparr>"
    by code_simp
  have f3: "find (\<lambda>m. str_upper ascii_text (meal_name m)
                        = str_upper ascii_text (str_strip ascii_text ''Breakfast''))
              MOCK_MEAL_DEFINITIONS = Some \<lparr>meal_id = 645041, meal_name = ''Breakfast''\<rparr>"
    by code_simp
  have f4: "find (\<lambda>m. str_upper ascii_text (meal_name m)
                        = str_upper ascii_text (str_strip ascii_text ''  snacks ''))
              MOCK_MEAL_DEFINITIONS = Some \<lparr>meal_id = 645044, meal_name = ''Snacks''\<rparr>"
    by code_simp
  have a: "resolve_meal_id ascii_text mock_garth ''breakfast'' None = Inr 645041"
    using w [of ascii_text "''breakfast''"] by (simp add: f1)
  have b: "resolve_meal_id ascii_text mock_garth ''BREAKFAST'' None = Inr 645041"
    using w [of ascii_text "''BREAKFAST''"] by (simp add: f2)
  have c: "resolve_meal_id ascii_text mock_garth ''Breakfast'' None = Inr 645041"
    using w [of ascii_text "''Breakfast''"] by (simp add: f3)
  have d: "resolve_meal_id ascii_text mock_garth ''  snacks '' None = Inr 645044"
    using w [of ascii_text "''  snacks ''"] by (simp add: f4)
  show ?thesis by (rule conjI [OF a conjI [OF b conjI [OF c d]]])
qed

section \<open>Unknown meal names\<close>











section \<open>Batch removal of log entries\<close>

lemma py_split_not_Nil: "py_split sep s \<noteq> []"
  by (induction s) (auto split: list.splits)

lemma join_Cons: "ps \<noteq> [] \<Longrightarrow> join sep (p # ps) = p @ sep @ join sep ps"
  by (cases ps) simp_all

lemma join_py_split: "join [sep] (py_split sep s) = s"
proof (induction s)
  case Nil
  then show ?case by simp
next
  case (Cons c cs)
  obtain p ps where ps: "py_split sep cs = p # ps"
    using py_split_not_Nil [of sep cs] by (cases "py_split sep cs") auto
  show ?case
  proof (cases "c = sep")
    case True
    with Cons show ?thesis by (simp add: join_Cons py_split_not_Nil)
  next
    case False
    with Cons ps show ?thesis by (cases ps) simp_all
  qed
qed

lemma py_split_no_sep: "p \<in> set (py_split sep s) \<Longrightarrow> sep \<notin> set p"
proof (induction s arbitrary: p)
  case Nil
  then show ?case by simp
next
  case (Cons c cs)
  obtain q qs where qs: "py_split sep cs = q # qs"
    using py_split_not_Nil [of sep cs] by (cases "py_split sep cs") auto
  show ?case
  proof (cases "c = sep")
    case True
    with Cons show ?thesis by auto
  next
    case False
    with Cons.prems qs have "p = c # q \<or> p \<in> set qs" by simp
    then show ?thesis
    proof
      assume "p = c # q"
      moreover have "sep \<notin> set q" using Cons.IH [of q] qs by simp
      ultimately show ?thesis using False by auto
    next
      assume "p \<in> set qs"
      then show ?thesis using Cons.IH [of p] qs by simp
    qed
  qed
qed

lemma py_split_length: "length (py_split sep s) = Suc (length (filter (\<lambda>c. c = sep) s))"
proof (induction s)
  case Nil
  then show ?case by simp
next
  case (Cons c cs)
  obtain q qs where qs: "py_split sep cs = q # qs"
    using py_split_not_Nil [of sep cs] by (cases "py_split sep cs") auto
  with Cons show ?case by simp
qed

lemma parse_log_ids_entries:
  "x \<in> set (parse_log_ids b log_ids) \<longleftrightarrow>
     x \<noteq> [] \<and> (\<exists>p \<in> set (py_split CHR '','' log_ids). x = str_strip b p)"
  by (auto simp: parse_log_ids_def)

lemma remove_food_log_empty:
  "parse_log_ids b log_ids = [] \<Longrightarrow>
     remove_food_log b g date log_ids =
       \<lparr>text_of = Msg ''Error: no log_ids provided'', calls = []\<rparr>"
  by (simp add: remove_food_log_def Let_def)

lemma remove_food_log_calls:
  "parse_log_ids b log_ids \<noteq> [] \<Longrightarrow>
     calls (remove_food_log b g date log_ids)
       = [Call_FoodLog_remove date (parse_log_ids b log_ids)]"
  by (simp add: remove_food_log_def Let_def split: sum.splits)

lemma remove_food_log_success:
  "parse_log_ids b log_ids \<noteq> [] \<Longrightarrow>
   FoodLog_remove g date (parse_log_ids b log_ids) = Inr u \<Longrightarrow>
     text_of (remove_food_log b g date log_ids) =
       Doc [(''status'', PStr ''success''),
            (''date'', PStr date),
            (''removed_count'', PInt (int (length (parse_log_ids b log_ids))))]"
  by (simp add: remove_food_log_def Let_def)

lemma remove_food_log_failure:
  "parse_log_ids b log_ids \<noteq> [] \<Longrightarrow>
   FoodLog_remove g date (parse_log_ids b log_ids) = Inl e \<Longrightarrow>
     text_of (remove_food_log b g date log_ids) =
       Msg (''Error removing food log entries: '' @ str_exn e)"
  by (simp add: remove_food_log_def Let_def)

text \<open>
  C5. remove_food_log splits log_ids at the commas: the pieces, joined again with commas,
  give log_ids back, no piece holds a comma, and there is one piece more than there are
  commas. It strips each piece with str.strip and keeps, in their order, the stripped
  pieces that are not empty: an id is parsed exactly when it is the non-empty result of
  stripping a piece. With no id left it returns "Error: no log_ids provided" and calls
  nothing; otherwise it calls the removal exactly once, with the parsed ids, and when that
  call returns it reports removed_count as the number of parsed ids (when the call raises,
  it reports the exception).
\<close>

theorem remove_food_log_batch:
  "(parse_log_ids b log_ids = [] \<longrightarrow>
      remove_food_log b g date log_ids =
        \<lparr>text_of = Msg ''Error: no log_ids provided'', calls = []\<rparr>)
 \<and> (parse_log_ids b log_ids \<noteq> [] \<longrightarrow>
      calls (remove_food_log b g date log_ids)
        = [Call_FoodLog_remove date (parse_log_ids b log_ids)])
 \<and> (parse_log_ids b log_ids \<noteq> [] \<and> FoodLog_remove g date (parse_log_ids b log_ids) = Inr u
      \<longrightarrow> text_of (remove_food_log b g date log_ids) =
        Doc [(''status'', PStr ''success''),
             (''date'', PStr date),
             (''removed_count'', PInt (int (length (parse_log_ids b log_ids))))])
 \<and> (parse_log_ids b log_ids \<noteq> [] \<and> FoodLog_remove g date (parse_log_ids b log_ids) = Inl e
      \<longrightarrow> text_of (remove_food_log b g date log_ids) =
        Msg (''Error removing food log entries: '' @ str_exn e))
 \<and> parse_log_ids b log_ids =
      filter (\<lambda>x. x \<noteq> []) (map (str_strip b) (py_split CHR '','' log_ids))
 \<and> (x \<in> set (parse_log_ids b log_ids) \<longleftrightarrow>
      x \<noteq> [] \<and> (\<exists>p \<in> set (py_split CHR '','' log_ids). x = str_strip b p))
 \<and> join '','' (py_split CHR '','' log_ids) = log_ids
 \<and> (\<forall>p \<in> set (py_split CHR '','' log_ids). CHR '','' \<notin> set p)
 \<and> length (py_split CHR '','' log_ids) = Suc (length (filter (\<lambda>c. c = CHR '','') log_ids))
 \<and> py_in ''no log_ids'' ''Error: no log_ids provided''"
proof -
  have a: "parse_log_ids b log_ids = [] \<longrightarrow>
      remove_food_log b g date log_ids =
        \<lparr>text_of = Msg ''Error: no log_ids provided'', calls = []\<rparr>"
    by (simp add: remove_food_log_empty)
  have c: "parse_log_ids b log_ids \<noteq> [] \<longrightarrow>
      calls (remove_food_log b g date log_ids)
        = [Call_FoodLog_remove date (parse_log_ids b log_ids)]"
    by (simp add: remove_food_log_calls)
  have d: "parse_log_ids b log_ids \<noteq> [] \<and> FoodLog_remove g date (parse_log_ids b log_ids) = Inr u
      \<longrightarrow> text_of (remove_food_log b g date log_ids) =
        Doc [(''status'', PStr ''success''),
             (''date'', PStr date),
             (''removed_count'', PInt (int (length (parse_log_ids b log_ids))))]"
    by (simp add: remove_food_log_success)
  have f: "parse_log_ids b log_ids \<noteq> [] \<and> FoodLog_remove g date (parse_log_ids b log_ids) = Inl e
      \<longrightarrow> text_of (remove_food_log b g date log_ids) =
        Msg (''Error removing food log entries: '' @ str_exn e)"
    by (simp add: remove_food_log_failure)
  have h: "parse_log_ids b log_ids =
      filter (\<lambda>x. x \<noteq> []) (map (str_strip b) (py_split CHR '','' log_ids))"
    by (simp add: parse_log_ids_def filter_map comp_def)
  have i: "x \<in> set (parse_log_ids b log_ids) \<longleftrightarrow>
      x \<noteq> [] \<and> (\<exists>p \<in> set (py_split CHR '','' log_ids). x = str_strip b p)"
    by (rule parse_log_ids_entries)
  have j: "join '','' (py_split CHR '','' log_ids) = log_ids"
    by (rule join_py_split)
  have k: "\<forall>p \<in> set (py_split CHR '','' log_ids). CHR '','' \<notin> set p"
    by (rule ballI) (rule py_split_no_sep)
  have l: "length (py_split CHR '','' log_ids)
             = Suc (length (filter (\<lambda>c. c = CHR '','') log_ids))"
    by (rule py_split_length)
  have m: "py_in ''no log_ids'' ''Error: no log_ids provided''"
    by code_simp
  show ?thesis
    by (rule conjI [OF a conjI [OF c conjI [OF d conjI [OF f conjI [OF h conjI [OF i
          conjI [OF j conjI [OF k conjI [OF l m]]]]]]]]])
qed

lemma parse_examples:
  "parse_log_ids ascii_text [] = []"
  "parse_log_ids ascii_text ''   '' = []"
  "parse_log_ids ascii_text '' , ,'' = []"
  "parse_log_ids ascii_text ''abc123,def456'' = [''abc123'', ''def456'']"
  "parse_log_ids ascii_text '' abc123 ,, def456  '' = [''abc123'', ''def456'']"
  by code_simp+

theorem remove_food_log_batch_witness:
  "remove_food_log ascii_text mock_garth ''2024-01-15'' [] =
     \<lparr>text_of = Msg ''Error: no log_ids provided'', calls = []\<rparr>
 \<and> remove_food_log ascii_text mock_garth ''2024-01-15'' '' , ,'' =
     \<lparr>text_of = Msg ''Error: no log_ids provided'', calls = []\<rparr>
 \<and> calls (remove_food_log ascii_text mock_garth ''2024-01-15'' ''abc123,def456'')
     = [Call_FoodLog_remove ''2024-01-15'' [''abc123'', ''def456'']]
 \<and> text_of (remove_food_log ascii_text mock_garth ''2024-01-15'' ''abc123,def456'') =
     Doc [(''status'', PStr ''success''),
          (''date'', PStr ''2024-01-15''),
          (''removed_count'', PInt 2)]
 \<and> calls (remove_food_log ascii_text mock_garth ''2024-01-15'' '' abc123 ,, def456  '')
     = [Call_FoodLog_remove ''2024-01-15'' [''abc123'', ''def456'']]
 \<and> text_of (remove_food_log ascii_text mock_garth ''2024-01-15'' '' abc123 ,, def456  '') =
     Doc [(''status'', PStr ''success''),
          (''date'', PStr ''2024-01-15''),
          (''removed_count'', PInt 2)]"
proof -
  have rm: "FoodLog_remove mock_garth ''2024-01-15'' [''abc123'', ''def456''] = Inr ()"
    by (simp add: mock_garth_def)
  note w0 = remove_food_log_batch [of ascii_text "[]" mock_garth "''2024-01-15''"]
  note w1 = remove_food_log_batch [of ascii_text "'' , ,''" mock_garth "''2024-01-15''"]
  note w2 = remove_food_log_batch
    [of ascii_text "''abc123,def456''" mock_garth "''2024-01-15''" "()"]
  note w3 = remove_food_log_batch
    [of ascii_text "'' abc123 ,, def456  ''" mock_garth "''2024-01-15''" "()"]
  have a: "remove_food_log ascii_text mock_garth ''2024-01-15'' [] =
     \<lparr>text_of = Msg ''Error: no log_ids provided'', calls = []\<rparr>"
    by (rule w0 [THEN conjunct1, THEN mp]) (rule parse_examples)
  have b: "remove_food_log ascii_text mock_garth ''2024-01-15'' '' , ,'' =
     \<lparr>text_of = Msg ''Error: no log_ids provided'', calls = []\<rparr>"
    by (rule w1 [THEN conjunct1, THEN mp]) (rule parse_examples)
  have c: "calls (remove_food_log ascii_text mock_garth ''2024-01-15'' ''abc123,def456'')
     = [Call_FoodLog_remove ''2024-01-15'' [''abc123'', ''def456'']]"
    using w2 [THEN conjunct2, THEN conjunct1] by (simp add: parse_examples)
  have d: "text_of (remove_food_log ascii_text mock_garth ''2024-01-15'' ''abc123,def456'') =
     Doc [(''status'', PStr ''success''),
          (''date'', PStr ''2024-01-15''),
          (''removed_count'', PInt 2)]"
    using w2 [THEN conjunct2, THEN conjunct2, THEN conjunct1] rm by (simp add: parse_examples)
  have e: "calls (remove_food_log ascii_text mock_garth ''2024-01-15'' '' abc123 ,, def456  '')
     = [Call_FoodLog_remove ''2024-01-15'' [''abc123'', ''def456'']]"
    using w3 [THEN conjunct2, THEN conjunct1] by (simp add: parse_examples)
  have f: "text_of (remove_food_log ascii_text mock_garth ''2024-01-15''
                      '' abc123 ,, def456  '') =
     Doc [(''status'', PStr ''success''),
          (''date'', PStr ''2024-01-15''),
          (''removed_count'', PInt 2)]"
    using w3 [THEN conjunct2, THEN conjunct2, THEN conjunct1] rm by (simp add: parse_examples)
  show ?thesis
    by (rule conjI [OF a conjI [OF b conjI [OF c conjI [OF d conjI [OF e f]]]]])
qed

section \<open>Custom meal creation\<close>

lemma create_custom_meal_bad_json:
  "json_loads g s = Inl (JSONDecodeError m) \<Longrightarrow>
     create_custom_meal g name (FoodsText s) =
       \<lparr>text_of = Msg ''Error: foods_json is not valid JSON'', calls = [Call_json_loads s]\<rparr>"
  by (simp add: create_custom_meal_def)

lemma create_custom_meal_not_array:
  "json_loads g s = Inr v \<Longrightarrow> \<forall>foods. v \<noteq> PList foods \<Longrightarrow>
     create_custom_meal g name (FoodsText s) =
       \<lparr>text_of = Msg ''Error: foods_json must be a JSON array'', calls = [Call_json_loads s]\<rparr>"
  by (cases v) (simp_all add: create_custom_meal_def)

lemma custom_meal_create_from_calls:
  "calls (custom_meal_create_from g name foods tr) = tr @ [Call_CustomMeal_create name foods]"
  by (simp add: custom_meal_create_from_def Let_def split: sum.splits)

lemma create_custom_meal_list_calls:
  "calls (create_custom_meal g name (FoodsList foods)) = [Call_CustomMeal_create name foods]"
  by (simp add: create_custom_meal_def custom_meal_create_from_calls)

lemma create_custom_meal_list_no_parse:
  "create_custom_meal (g\<lparr>json_loads := f\<rparr>) name (FoodsList foods)
     = create_custom_meal g name (FoodsList foods)"
  by (simp add: create_custom_meal_def custom_meal_create_from_def)

text \<open>
  C6. create_custom_meal on a text that json.loads rejects returns
  "Error: foods_json is not valid JSON", and on a text that parses to anything but a list
  returns "Error: foods_json must be a JSON array"; in both cases the only call made is
  json.loads, so the create operation is not invoked. On an already-parsed list it calls
  the create operation with that very list and never calls json.loads: the outcome does not
  depend on what json.loads would do.
\<close>

theorem create_custom_meal_input_validation:
  "(json_loads g s = Inl (JSONDecodeError m) \<longrightarrow>
      create_custom_meal g name (FoodsText s) =
        \<lparr>text_of = Msg ''Error: foods_json is not valid JSON'', calls = [Call_json_loads s]\<rparr>)
 \<and> (json_loads g s = Inr v \<and> (\<forall>foods. v \<noteq> PList foods) \<longrightarrow>
      create_custom_meal g name (FoodsText s) =
        \<lparr>text_of = Msg ''Error: foods_json must be a JSON array'',
         calls = [Call_json_loads s]\<rparr>)
 \<and> calls (create_custom_meal g name (FoodsList foods)) = [Call_CustomMeal_create name foods]
 \<and> create_custom_meal (g\<lparr>json_loads := f\<rparr>) name (FoodsList foods)
      = create_custom_meal g name (FoodsList foods)
 \<and> py_in ''not valid JSON'' ''Error: foods_json is not valid JSON''
 \<and> ''Error: foods_json is not valid JSON'' \<noteq> ''Error: foods_json must be a JSON array''"
proof -
  have a: "json_loads g s = Inl (JSONDecodeError m) \<longrightarrow>
      create_custom_meal g name (FoodsText s) =
        \<lparr>text_of = Msg ''Error: foods_json is not valid JSON'', calls = [Call_json_loads s]\<rparr>"
    by (simp add: create_custom_meal_bad_json)
  have b: "json_loads g s = Inr v \<and> (\<forall>foods. v \<noteq> PList foods) \<longrightarrow>
      create_custom_meal g name (FoodsText s) =
        \<lparr>text_of = Msg ''Error: foods_json must be a JSON array'',
         calls = [Call_json_loads s]\<rparr>"
    by (intro impI, elim conjE) (rule create_custom_meal_not_array)
  have e: "py_in ''not valid JSON'' ''Error: foods_json is not valid JSON''"
    by code_simp
  have f: "''Error: foods_json is not valid JSON'' \<noteq> ''Error: foods_json must be a JSON array''"
    by simp
  show ?thesis
    by (rule conjI [OF a conjI [OF b conjI [OF create_custom_meal_list_calls
          conjI [OF create_custom_meal_list_no_parse conjI [OF e f]]]]])
qed

theorem create_custom_meal_input_validation_witness:
  "create_custom_meal
     ((raising (Exception ''API down''))
        \<lparr>json_loads := (\<lambda>s. Inl (JSONDecodeError ''Expecting value: line 1 column 1 (char 0)''))\<rparr>)
     ''Bad'' (FoodsText ''not json'') =
     \<lparr>text_of = Msg ''Error: foods_json is not valid JSON'',
      calls = [Call_json_loads ''not json'']\<rparr>
 \<and> create_custom_meal
     ((raising (Exception ''API down''))\<lparr>json_loads := (\<lambda>s. Inr (PDict []))\<rparr>)
     ''Bad'' (FoodsText ''{}'') =
     \<lparr>text_of = Msg ''Error: foods_json must be a JSON array'',
      calls = [Call_json_loads ''{}'']\<rparr>
 \<and> calls (create_custom_meal (raising (Exception ''API down'')) ''Bowl''
             (FoodsList [PDict [(''foodId'', PStr ''5367'')]]))
     = [Call_CustomMeal_create ''Bowl'' [PDict [(''foodId'', PStr ''5367'')]]]"
proof -
  let ?g1 = "(raising (Exception ''API down''))
        \<lparr>json_loads := (\<lambda>s. Inl (JSONDecodeError ''Expecting value: line 1 column 1 (char 0)''))\<rparr>"
  let ?g2 = "(raising (Exception ''API down''))\<lparr>json_loads := (\<lambda>s. Inr (PDict []))\<rparr>"
  have l1: "json_loads ?g1 ''not json''
              = Inl (JSONDecodeError ''Expecting value: line 1 column 1 (char 0)'')"
    by simp
  have l2: "json_loads ?g2 ''{}'' = Inr (PDict []) \<and> (\<forall>foods. PDict [] \<noteq> PList foods)"
    by simp
  have a: "create_custom_meal ?g1 ''Bad'' (FoodsText ''not json'') =
     \<lparr>text_of = Msg ''Error: foods_json is not valid JSON'',
      calls = [Call_json_loads ''not json'']\<rparr>"
    by (rule create_custom_meal_input_validation [THEN conjunct1, THEN mp, OF l1])
  have b: "create_custom_meal ?g2 ''Bad'' (FoodsText ''{}'') =
     \<lparr>text_of = Msg ''Error: foods_json must be a JSON array'',
      calls = [Call_json_loads ''{}'']\<rparr>"
    by (rule create_custom_meal_input_validation [THEN conjunct2, THEN conjunct1, THEN mp,
          OF l2])
  have c: "calls (create_custom_meal (raising (Exception ''API down'')) ''Bowl''
             (FoodsList [PDict [(''foodId'', PStr ''5367'')]]))
     = [Call_CustomMeal_create ''Bowl'' [PDict [(''foodId'', PStr ''5367'')]]]"
    by (rule create_custom_meal_input_validation [THEN conjunct2, THEN conjunct2,
          THEN conjunct1])
  show ?thesis by (rule conjI [OF a conjI [OF b c]])
qed

text \<open>
  C4, at the input where the code departs from it. The collaborator's create operation
  raises a json.JSONDecodeError whose message carries "API down" (as a client does that
  fails to decode the server's reply); foods_json is an already-parsed list, so nothing of
  the caller's is parsed. The handler's first except clause catches the exception and the
  result is the fixed text about foods_json, which does not contain "API down".
\<close>

theorem create_custom_meal_masks_collaborator_error:
  "create_custom_meal
     (raising (JSONDecodeError ''API down: line 1 column 1 (char 0)'')) ''Bowl'' (FoodsList [])
   = \<lparr>text_of = Msg ''Error: foods_json is not valid JSON'',
      calls = [Call_CustomMeal_create ''Bowl'' []]\<rparr>
 \<and> py_in ''API down'' (str_exn (JSONDecodeError ''API down: line 1 column 1 (char 0)''))
 \<and> \<not> py_in ''API down'' ''Error: foods_json is not valid JSON''"
proof -
  have a: "create_custom_meal
     (raising (JSONDecodeError ''API down: line 1 column 1 (char 0)'')) ''Bowl'' (FoodsList [])
   = \<lparr>text_of = Msg ''Error: foods_json is not valid JSON'',
      calls = [Call_CustomMeal_create ''Bowl'' []]\<rparr>"
    by (simp add: create_custom_meal_def custom_meal_create_from_def raising_def)
  have b: "py_in ''API down'' (str_exn (JSONDecodeError ''API down: line 1 column 1 (char 0)''))"
    by code_simp
  have c: "\<not> py_in ''API down'' ''Error: foods_json is not valid JSON''"
    by code_simp
  show ?thesis by (rule conjI [OF a conjI [OF b c]])
qed

section \<open>Collaborator errors at the tool boundary\<close>

lemma py_in_prefix: "py_in n (n @ s)"
proof (cases "n @ s")
  case Nil
  then show ?thesis by simp
next
  case (Cons c cs)
  have "take (length n) (n @ s) = n" by simp
  then have "take (length n) (c # cs) = n" by (simp only: Cons)
  then have "py_in n (c # cs)" by simp
  then show ?thesis by (simp only: Cons)
qed

lemma py_in_append: "py_in n s \<Longrightarrow> py_in n (p @ s)"
  by (induction p) simp_all

lemma py_in_suffix: "py_in n (p @ n)"
  using py_in_prefix [of n "[]"] by (simp add: py_in_append)

lemma read_tools_report:
  "(DailyNutritionLog_get g date = Inl e \<longrightarrow>
      text_of (get_nutrition_log g date) = Msg (''Error getting nutrition log: '' @ str_exn e))
 \<and> (DailyNutritionLog_get g date = Inl e \<longrightarrow>
      text_of (get_nutrition_summary g date)
        = Msg (''Error getting nutrition summary: '' @ str_exn e))
 \<and> (NutritionSettings_get g day = Inl e \<longrightarrow>
      text_of (get_nutrition_settings g day)
        = Msg (''Error getting nutrition settings: '' @ str_exn e))
 \<and> (FoodSearch_search g query start limit = Inl e \<longrightarrow>
      text_of (search_foods g query start limit) = Msg (''Error searching foods: '' @ str_exn e))
 \<and> (resolve_meal_id b g meal day = Inl e \<longrightarrow>
      text_of (get_recent_foods b g meal day) = Msg (''Error getting recent foods: '' @ str_exn e))
 \<and> (resolve_meal_id b g meal day = Inr mid \<and> FoodSearch_recent g mid day = Inl e \<longrightarrow>
      text_of (get_recent_foods b g meal day) = Msg (''Error getting recent foods: '' @ str_exn e))
 \<and> (FavoriteFoods_list g query start limit = Inl e \<longrightarrow>
      text_of (list_favorite_foods g query start limit)
        = Msg (''Error listing favorites: '' @ str_exn e))
 \<and> (CustomFood_list g query start limit = Inl e \<longrightarrow>
      text_of (list_custom_foods g query start limit)
        = Msg (''Error listing custom foods: '' @ str_exn e))
 \<and> (CustomMeal_list g query start limit = Inl e \<longrightarrow>
      text_of (list_custom_meals g query start limit)
        = Msg (''Error listing custom meals: '' @ str_exn e))"
proof -
  have a: "DailyNutritionLog_get g date = Inl e \<longrightarrow>
      text_of (get_nutrition_log g date) = Msg (''Error getting nutrition log: '' @ str_exn e)"
    by (simp add: get_nutrition_log_def)
  have b: "DailyNutritionLog_get g date = Inl e \<longrightarrow>
      text_of (get_nutrition_summary g date)
        = Msg (''Error getting nutrition summary: '' @ str_exn e)"
    by (simp add: get_nutrition_summary_def)
  have c: "NutritionSettings_get g day = Inl e \<longrightarrow>
      text_of (get_nutrition_settings g day)
        = Msg (''Error getting nutrition settings: '' @ str_exn e)"
    by (simp add: get_nutrition_settings_def)
  have d: "FoodSearch_search g query start limit = Inl e \<longrightarrow>
      text_of (search_foods g query start limit) = Msg (''Error searching foods: '' @ str_exn e)"
    by (simp add: search_foods_def)
  have f: "resolve_meal_id b g meal day = Inl e \<longrightarrow>
      text_of (get_recent_foods b g meal day) = Msg (''Error getting recent foods: '' @ str_exn e)"
    by (simp add: get_recent_foods_def)
  have h: "resolve_meal_id b g meal day = Inr mid \<and> FoodSearch_recent g mid day = Inl e \<longrightarrow>
      text_of (get_recent_foods b g meal day) = Msg (''Error getting recent foods: '' @ str_exn e)"
    by (simp add: get_recent_foods_def)
  have i: "FavoriteFoods_list g query start limit = Inl e \<longrightarrow>
      text_of (list_favorite_foods g query start limit)
        = Msg (''Error listing favorites: '' @ str_exn e)"
    by (simp add: list_favorite_foods_def)
  have j: "CustomFood_list g query start limit = Inl e \<longrightarrow>
      text_of (list_custom_foods g query start limit)
        = Msg (''Error listing custom foods: '' @ str_exn e)"
    by (simp add: list_custom_foods_def)
  have k: "CustomMeal_list g query start limit = Inl e \<longrightarrow>
      text_of (list_custom_meals g query start limit)
        = Msg (''Error listing custom meals: '' @ str_exn e)"
    by (simp add: list_custom_meals_def)
  show ?thesis
    by (rule conjI [OF a conjI [OF b conjI [OF c conjI [OF d conjI [OF f conjI [OF h
          conjI [OF i conjI [OF j k]]]]]]]])
qed

lemma write_tools_report:
  "(resolve_meal_id b g meal (Some date) = Inl e \<longrightarrow>
      text_of (log_food b g date meal food_id serving_id source serving_qty)
        = Msg (''Error logging food: '' @ str_exn e))
 \<and> (resolve_meal_id b g meal (Some date) = Inr mid
      \<and> FoodLog_add g date mid (py_str food_id) (py_str serving_id) source serving_qty = Inl e
      \<longrightarrow> text_of (log_food b g date meal food_id serving_id source serving_qty)
        = Msg (''Error logging food: '' @ str_exn e))
 \<and> (resolve_meal_id b g meal (Some date) = Inl e \<longrightarrow>
      text_of (quick_add_nutrition b g date meal name calories protein fat carbs)
        = Msg (''Error quick-adding nutrition: '' @ str_exn e))
 \<and> (resolve_meal_id b g meal (Some date) = Inr mid
      \<and> QuickAdd_add g date mid name calories protein fat carbs = Inl e
      \<longrightarrow> text_of (quick_add_nutrition b g date meal name calories protein fat carbs)
        = Msg (''Error quick-adding nutrition: '' @ str_exn e))
 \<and> (resolve_meal_id b g meal (Some date) = Inl e \<longrightarrow>
      text_of (update_food_log b g date log_id meal food_id serving_id source serving_qty)
        = Msg (''Error updating food log: '' @ str_exn e))
 \<and> (resolve_meal_id b g meal (Some date) = Inr mid
      \<and> FoodLog_update g date (py_str log_id) mid (py_str food_id) (py_str serving_id) source
            serving_qty = Inl e
      \<longrightarrow> text_of (update_food_log b g date log_id meal food_id serving_id source serving_qty)
        = Msg (''Error updating food log: '' @ str_exn e))
 \<and> (parse_log_ids b log_ids \<noteq> [] \<and> FoodLog_remove g date (parse_log_ids b log_ids) = Inl e \<longrightarrow>
      text_of (remove_food_log b g date log_ids)
        = Msg (''Error removing food log entries: '' @ str_exn e))
 \<and> (FavoriteFoods_add g (py_str food_id) (py_str serving_id) source serving_qty = Inl e \<longrightarrow>
      text_of (add_favorite_food g food_id serving_id source serving_qty)
        = Msg (''Error adding favorite: '' @ str_exn e))
 \<and> (FavoriteFoods_remove g (py_str food_id) = Inl e \<longrightarrow>
      text_of (remove_favorite_food g food_id) = Msg (''Error removing favorite: '' @ str_exn e))
 \<and> (CustomFood_create g food_name serving_unit number_of_units calories oprotein ofat ocarbs
        ofiber osugar = Inl e \<longrightarrow>
      text_of (create_custom_food g food_name serving_unit number_of_units calories oprotein
                 ofat ocarbs ofiber osugar)
        = Msg (''Error creating custom food: '' @ str_exn e))
 \<and> (CustomFood_delete g (py_str food_id) = Inl e \<longrightarrow>
      text_of (delete_custom_food g food_id)
        = Msg (''Error deleting custom food: '' @ str_exn e))"
proof -
  have a: "resolve_meal_id b g meal (Some date) = Inl e \<longrightarrow>
      text_of (log_food b g date meal food_id serving_id source serving_qty)
        = Msg (''Error logging food: '' @ str_exn e)"
    by (simp add: log_food_def Let_def)
  have b: "resolve_meal_id b g meal (Some date) = Inr mid
      \<and> FoodLog_add g date mid (py_str food_id) (py_str serving_id) source serving_qty = Inl e
      \<longrightarrow> text_of (log_food b g date meal food_id serving_id source serving_qty)
        = Msg (''Error logging food: '' @ str_exn e)"
    by (simp add: log_food_def Let_def)
  have c: "resolve_meal_id b g meal (Some date) = Inl e \<longrightarrow>
      text_of (quick_add_nutrition b g date meal name calories protein fat carbs)
        = Msg (''Error quick-adding nutrition: '' @ str_exn e)"
    by (simp add: quick_add_nutrition_def)
  have d: "resolve_meal_id b g meal (Some date) = Inr mid
      \<and> QuickAdd_add g date mid name calories protein fat carbs = Inl e
      \<longrightarrow> text_of (quick_add_nutrition b g date meal name calories protein fat carbs)
        = Msg (''Error quick-adding nutrition: '' @ str_exn e)"
    by (simp add: quick_add_nutrition_def)
  have f: "resolve_meal_id b g meal (Some date) = Inl e \<longrightarrow>
      text_of (update_food_log b g date log_id meal food_id serving_id source serving_qty)
        = Msg (''Error updating food log: '' @ str_exn e)"
    by (simp add: update_food_log_def Let_def)
  have h: "resolve_meal_id b g meal (Some date) = Inr mid
      \<and> FoodLog_update g date (py_str log_id) mid (py_str food_id) (py_str serving_id) source
            serving_qty = Inl e
      \<longrightarrow> text_of (update_food_log b g date log_id meal food_id serving_id source serving_qty)
        = Msg (''Error updating food log: '' @ str_exn e)"
    by (simp add: update_food_log_def Let_def)
  have i: "parse_log_ids b log_ids \<noteq> [] \<and> FoodLog_remove g date (parse_log_ids b log_ids) = Inl e \<longrightarrow>
      text_of (remove_food_log b g date log_ids)
        = Msg (''Error removing food log entries: '' @ str_exn e)"
    by (simp add: remove_food_log_failure)
  have j: "FavoriteFoods_add g (py_str food_id) (py_str serving_id) source serving_qty = Inl e \<longrightarrow>
      text_of (add_favorite_food g food_id serving_id source serving_qty)
        = Msg (''Error adding favorite: '' @ str_exn e)"
    by (simp add: add_favorite_food_def Let_def)
  have k: "FavoriteFoods_remove g (py_str food_id) = Inl e \<longrightarrow>
      text_of (remove_favorite_food g food_id) = Msg (''Error removing favorite: '' @ str_exn e)"
    by (simp add: remove_favorite_food_def Let_def)
  have l: "CustomFood_create g food_name serving_unit number_of_units calories oprotein ofat ocarbs
        ofiber osugar = Inl e \<longrightarrow>
      text_of (create_custom_food g food_name serving_unit number_of_units calories oprotein
                 ofat ocarbs ofiber osugar)
        = Msg (''Error creating custom food: '' @ str_exn e)"
    by (simp add: create_custom_food_def)
  have m: "CustomFood_delete g (py_str food_id) = Inl e \<longrightarrow>
      text_of (delete_custom_food g food_id)
        = Msg (''Error deleting custom food: '' @ str_exn e)"
    by (simp add: delete_custom_food_def Let_def)
  show ?thesis
    by (rule conjI [OF a conjI [OF b conjI [OF c conjI [OF d conjI [OF f conjI [OF h
          conjI [OF i conjI [OF j conjI [OF k conjI [OF l m]]]]]]]]]])
qed

lemma custom_meal_except_other:
  "\<forall>m. e \<noteq> JSONDecodeError m \<Longrightarrow>
     custom_meal_except e = Msg (''Error creating custom meal: '' @ str_exn e)"
  by (cases e) simp_all

lemma create_custom_meal_reports:
  "(\<forall>m. e \<noteq> JSONDecodeError m) \<and> CustomMeal_create g name foods = Inl e \<longrightarrow>
     text_of (create_custom_meal g name (FoodsList foods))
       = Msg (''Error creating custom meal: '' @ str_exn e)"
  by (simp add: create_custom_meal_def custom_meal_create_from_def custom_meal_except_other)

lemma error_text_contains:
  "py_in ''Error'' (''Error'' @ rest) \<and> py_in (str_exn e) (prefix @ str_exn e)"
  by (rule conjI [OF py_in_prefix py_in_suffix])

end
